theory Spec2Isabelle
  imports Main "HOL-Library.Sublist"
begin

section \<open>Values, options and the execution context of \<open>publish.ts\<close>\<close>

text \<open>
  A thrown JavaScript value (an exception, or the reason of a rejected promise). Any
  value can be thrown: an \<open>Error\<close> object, which carries a message; \<open>undefined\<close>, as
  \<open>Promise.reject()\<close> and \<open>throw undefined\<close> give; \<open>null\<close>; or some other value that has no
  \<open>message\<close> property, such as a string.
\<close>

datatype exn = Error string | ThrownUndefined | ThrownNull | ThrownValue

text \<open>
  The expression \<open>e.message\<close> for a caught value \<open>e\<close>. Reading a property of
  \<open>undefined\<close> or \<open>null\<close> throws a \<open>TypeError\<close> (the wording is the engine's); a value
  without the property gives \<open>undefined\<close>, which the console prints as such.
\<close>

fun messageOf :: "exn \<Rightarrow> exn + string" where
  "messageOf (Error m) = Inr m"
| "messageOf ThrownUndefined = Inl (Error ''Cannot read property 'message' of undefined'')"
| "messageOf ThrownNull = Inl (Error ''Cannot read property 'message' of null'')"
| "messageOf ThrownValue = Inr ''undefined''"

text \<open>
  The values the docopt parser stores under an option or command key: \<open>null\<close>, a
  boolean flag, a repetition count, a string argument or a list of strings. A key that is
  not in the parsed object reads as \<open>undefined\<close>, modelled by \<open>None\<close> of the lookup.
\<close>

datatype docopt_value =
    VNull
  | VBool bool
  | VNumber int
  | VString string
  | VList "string list"

type_synonym DocOptions = "(string \<times> docopt_value) list"

text \<open>JavaScript truthiness, as used by \<open>x ? a : b\<close>, \<open>x || y\<close> and \<open>if (x)\<close>.\<close>

fun truthy :: "docopt_value option \<Rightarrow> bool" where
  "truthy None = False"
| "truthy (Some VNull) = False"
| "truthy (Some (VBool b)) = b"
| "truthy (Some (VNumber n)) = (n \<noteq> 0)"
| "truthy (Some (VString s)) = (s \<noteq> [])"
| "truthy (Some (VList xs)) = True"

text \<open>\<open>x ? x : d\<close> for a destructured option value \<open>x\<close>.\<close>

definition orDefault :: "docopt_value option \<Rightarrow> docopt_value \<Rightarrow> docopt_value" where
  "orDefault x d = (case x of None \<Rightarrow> d | Some v \<Rightarrow> if truthy (Some v) then v else d)"

text \<open>
  The data fields of \<open>CommandHandlerSpecOptions\<close>. The optional \<open>projectHome\<close> of the
  interface is \<open>specProjectHome\<close> here, since the context has a field \<open>projectHome\<close> too.
\<close>

record SpecData =
  calledFromMetaURL :: string
  calledFromMain :: bool
  version :: string
  specProjectHome :: "string option"

text \<open>
  \<open>class PublishCommandHandlerContext\<close>. The constructor stores the values of
  \<open>--project\<close> and \<open>--build-hooks\<close> under a type assertion (\<open>as string\<close>) that is not
  checked at run time, so both fields hold whatever value the parser produced.
\<close>

record PublishCommandHandlerContext =
  chsOptions :: SpecData
  cliOptions :: DocOptions
  projectHome :: docopt_value
  buildLifecyleHandlerGlob :: docopt_value
  isVerbose :: bool
  isDryRun :: bool

text \<open>
  The constructor (lines 83--101). Its first argument is the value of \<open>Deno.cwd()\<close>.
\<close>

definition newContext ::
  "string \<Rightarrow> SpecData \<Rightarrow> DocOptions \<Rightarrow> PublishCommandHandlerContext" where
  "newContext denoCwd chs cli =
     (let projectHomeOpt = map_of cli ''--project'';
          prepBuildGlob = map_of cli ''--build-hooks'';
          verbose = map_of cli ''--verbose'';
          dryRun = map_of cli ''--dry-run'';
          dry = (if truthy dryRun then True else False)
      in \<lparr> chsOptions = chs,
           cliOptions = cli,
           projectHome =
             orDefault projectHomeOpt
               (case specProjectHome chs of
                  None \<Rightarrow> VString denoCwd
                | Some p \<Rightarrow> if p \<noteq> [] then VString p else VString denoCwd),
           buildLifecyleHandlerGlob =
             orDefault prepBuildGlob (VString ''**/*/pubctl-hook-build.ts''),
           isVerbose = (dry \<or> (if truthy verbose then True else False)),
           isDryRun = dry \<rparr>)"

section \<open>Observable effects\<close>

datatype BuildLifecycleStep = PREPARE | FINALIZE

text \<open>The string value of the enum member, as \<open>console.log(step)\<close> prints it.\<close>

fun stepName :: "BuildLifecycleStep \<Rightarrow> string" where
  "stepName PREPARE = ''prepare''"
| "stepName FINALIZE = ''finalize''"

text \<open>
  \<open>std/fmt/colors.ts\<close> with colours enabled: the text between the escape sequence of
  the colour and the one that resets the foreground colour.
\<close>

definition ansi :: "string \<Rightarrow> string \<Rightarrow> string" where
  "ansi code s = CHR 0x1B # ''['' @ code @ ''m'' @ s @ CHR 0x1B # ''[39m''"

definition red :: "string \<Rightarrow> string" where "red = ansi ''31''"
definition green :: "string \<Rightarrow> string" where "green = ansi ''32''"
definition yellow :: "string \<Rightarrow> string" where "yellow = ansi ''33''"
definition brightRed :: "string \<Rightarrow> string" where "brightRed = ansi ''91''"
definition brightCyan :: "string \<Rightarrow> string" where "brightCyan = ansi ''96''"

text \<open>An argument of \<open>console.log\<close>: a string, or a caught error object.\<close>

datatype log_arg = Str string | ErrObj exn

text \<open>The handlers the dispatcher can call: custom handler number \<open>i\<close>, or a built-in one.\<close>

datatype handler_ref =
    CustomH nat
  | PrepareBuildH
  | BuildH
  | CleanH
  | UpdateH
  | VersionH

text \<open>
  What the program does to the outside, in the order it does it. \<open>ExpandGlob root glob\<close>
  is a call of \<open>fs.expandGlobSync\<close>, with the root the expansion starts from;
  \<open>Import url\<close> a dynamic \<open>import(url)\<close>; \<open>HookCall name step\<close> a call of the default
  function of the hook module \<open>name\<close>; \<open>RunShellCommand cmd verbose dryRun\<close> a call of
  \<open>shell.runShellCommand\<close> with these options; \<open>ExistsSync p\<close> and \<open>RemoveSync p\<close> the
  filesystem calls, with the absolute path they act on; \<open>Invoke h\<close> the dispatcher calling
  handler \<open>h\<close>.
\<close>

datatype event =
    Invoke handler_ref
  | ConsoleLog "log_arg list"
  | ConsoleError string
  | ConsoleDir DocOptions
  | Docopt string
  | ExpandGlob string docopt_value
  | Import string
  | HookCall string BuildLifecycleStep
  | RunShellCommand string bool bool
  | ExistsSync string
  | RemoveSync string
  | DetermineVersion string string

text \<open>
  The promise a hook's default function returns (\<open>Promise<true | void>\<close>), in the state
  it has when the call returns: already fulfilled, already rejected (an \<open>async\<close> function
  that throws before its first suspension), or still pending because the function is
  suspended at an \<open>await\<close> with part of its work ahead of it.
\<close>

datatype promise = Fulfilled | Rejected exn | Pending

text \<open>
  The state the program runs in: the effects so far, the paths that exist in the
  filesystem (absolute, directories and files alike), and the promises that were created by
  a call whose result nothing awaits.
\<close>

record world =
  trace :: "event list"
  files :: "string list"
  floating :: "(string \<times> promise) list"

definition emit :: "event \<Rightarrow> world \<Rightarrow> world" where
  "emit e w = w\<lparr>trace := trace w @ [e]\<rparr>"

definition start :: "string list \<Rightarrow> world" where
  "start fs = \<lparr>trace = [], files = fs, floating = []\<rparr>"

section \<open>External collaborators\<close>

text \<open>An entry the glob walker yields.\<close>

record WalkEntry =
  path :: string
  isFile :: bool

text \<open>
  A call of a function either throws synchronously or returns a promise.
\<close>

datatype call_result = Throws exn | Returns promise

text \<open>
  The \<open>default\<close> export of a loaded module: absent, present but not a function, or a
  function of the context and the lifecycle step.
\<close>

datatype default_export =
    NoDefault
  | NotAFunction
  | Function "PublishCommandHandlerContext \<Rightarrow> BuildLifecycleStep \<Rightarrow> call_result"

text \<open>
  Everything \<open>publish.ts\<close> imports from \<open>deps.ts\<close> or reads from the runtime, fixed for
  one run of the program:
  \<^item> \<open>cwd\<close>: \<open>Deno.cwd()\<close>;
  \<^item> \<open>docopt\<close>: \<open>docopt.default(doc)\<close>, parsing the process arguments against \<open>doc\<close>;
  \<^item> \<open>expandGlobSync root glob\<close>: the entries the walker yields from \<open>root\<close>, and the
    error it throws after them, if any;
  \<^item> \<open>relative from to\<close>: \<open>path.relative\<close>, which throws when \<open>from\<close> is not a string;
  \<^item> \<open>toFileUrl\<close>: \<open>path.toFileUrl(p).toString()\<close>, which throws on a relative path;
  \<^item> \<open>importModule\<close>: dynamic \<open>import\<close>, which throws when the module does not load;
  \<^item> \<open>runShellCommand cmd verbose dryRun\<close>: the error the shell runner throws, if any;
  \<^item> \<open>determineVersionFromRepoTag\<close> and \<open>importMetaURL\<close> (\<open>import.meta.url\<close> of
    \<open>publish.ts\<close>).
\<close>

record env =
  cwd :: string
  docopt :: "string \<Rightarrow> exn + DocOptions"
  expandGlobSync :: "string \<Rightarrow> docopt_value \<Rightarrow> WalkEntry list \<times> exn option"
  relative :: "docopt_value \<Rightarrow> string \<Rightarrow> exn + string"
  toFileUrl :: "string \<Rightarrow> exn + string"
  importModule :: "string \<Rightarrow> exn + default_export"
  runShellCommand :: "string \<Rightarrow> bool \<Rightarrow> bool \<Rightarrow> exn option"
  determineVersionFromRepoTag :: "string \<Rightarrow> string \<Rightarrow> exn + string"
  importMetaURL :: string

text \<open>
  The Deno runtime resolves a relative path given to a filesystem call against the
  current working directory of the process; a path is absolute when it starts with a
  slash.
\<close>

definition isAbsolute :: "string \<Rightarrow> bool" where
  "isAbsolute p = (case p of [] \<Rightarrow> False | c # _ \<Rightarrow> c = CHR ''/'')"

definition resolvePath :: "string \<Rightarrow> string \<Rightarrow> string" where
  "resolvePath dir p = (if isAbsolute p then p else dir @ ''/'' @ p)"

text \<open>\<open>fs.existsSync(p)\<close>.\<close>

definition existsSync :: "env \<Rightarrow> string \<Rightarrow> world \<Rightarrow> bool" where
  "existsSync E p w = (resolvePath (cwd E) p \<in> set (files w))"

text \<open>
  \<open>Deno.removeSync(p, { recursive: true })\<close>: throws when the path does not exist,
  otherwise removes it and everything below it.
\<close>

definition removeSync :: "env \<Rightarrow> string \<Rightarrow> world \<Rightarrow> exn + world" where
  "removeSync E p w =
     (let r = resolvePath (cwd E) p
      in if r \<in> set (files w)
         then Inr (emit (RemoveSync r)
                (w\<lparr>files := filter (\<lambda>q. q \<noteq> r \<and> \<not> prefix (r @ ''/'') q) (files w)\<rparr>))
         else Inl (Error ''NotFound''))"

text \<open>
  Modelled from the spec: the shell runner of \<open>tsd-shell\<close>, which is not part of the
  sources. It executes the operating-system command unless its \<open>dryRun\<close> option is set.
\<close>

fun executesShell :: "event \<Rightarrow> bool" where
  "executesShell (RunShellCommand cmd verbose dryRun) = (\<not> dryRun)"
| "executesShell _ = False"

section \<open>The context's methods\<close>

text \<open>\<open>reportShellCmd\<close> (lines 103--108).\<close>

definition reportShellCmd ::
  "PublishCommandHandlerContext \<Rightarrow> string \<Rightarrow> world \<Rightarrow> string \<times> world" where
  "reportShellCmd ctx cmd w =
     (cmd, if isVerbose ctx \<and> \<not> isDryRun ctx
           then emit (ConsoleLog [Str (brightCyan cmd)]) w else w)"

text \<open>
  The call \<open>await shell.runShellCommand(cmd, {...(this.isVerbose ? verbose : quiet),
  dryRun: this.isDryRun})\<close> that \<open>build\<close>, \<open>clean\<close> and \<open>update\<close> share.
\<close>

definition awaitShell ::
  "env \<Rightarrow> PublishCommandHandlerContext \<Rightarrow> string \<Rightarrow> world \<Rightarrow> (exn + unit) \<times> world" where
  "awaitShell E ctx cmd w =
     (let w1 = emit (RunShellCommand cmd (isVerbose ctx) (isDryRun ctx)) w
      in case runShellCommand E cmd (isVerbose ctx) (isDryRun ctx) of
           Some e \<Rightarrow> (Inl e, w1)
         | None \<Rightarrow> (Inr (), w1))"

text \<open>
  The loop of \<open>getPrepareBuildSubmoduleRelNames\<close> (lines 112--117) over the entries the
  walker yields, with the \<open>result\<close> array so far.
\<close>

fun relNamesLoop ::
  "env \<Rightarrow> PublishCommandHandlerContext \<Rightarrow> WalkEntry list \<Rightarrow> string list \<Rightarrow> exn + string list"
where
  "relNamesLoop E ctx [] result = Inr result"
| "relNamesLoop E ctx (we # rest) result =
     (if isFile we
      then (case relative E (projectHome ctx) (path we) of
              Inl e \<Rightarrow> Inl e
            | Inr prepModuleName \<Rightarrow> relNamesLoop E ctx rest (result @ [prepModuleName]))
      else relNamesLoop E ctx rest result)"

text \<open>
  \<open>getPrepareBuildSubmoduleRelNames\<close> (lines 110--119). \<open>expandGlobSync\<close> is called
  with the pattern alone, so its \<open>root\<close> option has its default, \<open>Deno.cwd()\<close>.
\<close>

definition getPrepareBuildSubmoduleRelNames ::
  "env \<Rightarrow> PublishCommandHandlerContext \<Rightarrow> world \<Rightarrow> (exn + string list) \<times> world" where
  "getPrepareBuildSubmoduleRelNames E ctx w =
     (let (entries, failure) = expandGlobSync E (cwd E) (buildLifecyleHandlerGlob ctx);
          w1 = emit (ExpandGlob (cwd E) (buildLifecyleHandlerGlob ctx)) w
      in case relNamesLoop E ctx entries [] of
           Inl e \<Rightarrow> (Inl e, w1)
         | Inr result \<Rightarrow>
             (case failure of Some e \<Rightarrow> (Inl e, w1) | None \<Rightarrow> (Inr result, w1)))"

text \<open>
  The \<open>try\<close> block of \<open>handleProjectBuildHooks\<close> (lines 145--179) for one file entry.
  The namespace object of a loaded module is always truthy, so the report is
  \<open>imported\<close>. The default function is called and its promise is dropped: line 164 is
  \<open>handler(this, step);\<close> with no \<open>await\<close>, so only a synchronous throw reaches the
  \<open>catch\<close> clause, and the promise joins the ones nothing awaits.
\<close>

definition tryHook ::
  "env \<Rightarrow> PublishCommandHandlerContext \<Rightarrow> BuildLifecycleStep \<Rightarrow> WalkEntry \<Rightarrow> string \<Rightarrow> world
     \<Rightarrow> (exn + unit) \<times> world" where
  "tryHook E ctx step we prepModuleName w =
     (case toFileUrl E (path we) of
        Inl e \<Rightarrow> (Inl e, w)
      | Inr url \<Rightarrow>
          (let w1 = emit (Import url) w
           in case importModule E url of
                Inl e \<Rightarrow> (Inl e, w1)
              | Inr module_default \<Rightarrow>
                  (let w2 = (if isDryRun ctx \<or> isVerbose ctx
                             then emit (ConsoleLog [Str (stepName step),
                                    Str (yellow prepModuleName), Str (green ''imported'')]) w1
                             else w1)
                   in if \<not> isDryRun ctx
                      then (case module_default of
                              Function handler \<Rightarrow>
                                (let w3 = emit (HookCall prepModuleName step) w2
                                 in case handler ctx step of
                                      Throws e \<Rightarrow> (Inl e, w3)
                                    | Returns p \<Rightarrow>
                                        (let w4 = w3\<lparr>floating :=
                                                    floating w3 @ [(prepModuleName, p)]\<rparr>
                                         in (Inr (),
                                             if isVerbose ctx
                                             then emit (ConsoleLog [Str (stepName step),
                                                    Str (yellow prepModuleName),
                                                    Str (green ''executed'')]) w4
                                             else w4)))
                            | _ \<Rightarrow>
                                (Inr (),
                                 emit (ConsoleLog [Str (brightRed (prepModuleName @
                                   '' does not have a default function''))]) w2))
                      else (Inr (), w2))))"

text \<open>The \<open>try\<close> block with its \<open>catch\<close> clause (lines 180--183).\<close>

definition hookCaught ::
  "env \<Rightarrow> PublishCommandHandlerContext \<Rightarrow> BuildLifecycleStep \<Rightarrow> WalkEntry \<Rightarrow> string \<Rightarrow> world
     \<Rightarrow> world" where
  "hookCaught E ctx step we prepModuleName w =
     (case tryHook E ctx step we prepModuleName w of
        (Inl err, w') \<Rightarrow>
          emit (ConsoleLog [ErrObj err]) (emit (ConsoleLog [Str (brightRed prepModuleName)]) w')
      | (Inr _, w') \<Rightarrow> w')"

text \<open>
  The loop of \<open>handleProjectBuildHooks\<close> (lines 142--186). \<open>path.relative\<close> is called
  before the \<open>try\<close> block, so what it throws leaves the loop.
\<close>

fun hooksLoop ::
  "env \<Rightarrow> PublishCommandHandlerContext \<Rightarrow> BuildLifecycleStep \<Rightarrow> WalkEntry list \<Rightarrow> string list
     \<Rightarrow> world \<Rightarrow> (exn + string list) \<times> world" where
  "hooksLoop E ctx step [] result w = (Inr result, w)"
| "hooksLoop E ctx step (we # rest) result w =
     (if isFile we
      then (case relative E (projectHome ctx) (path we) of
              Inl e \<Rightarrow> (Inl e, w)
            | Inr prepModuleName \<Rightarrow>
                hooksLoop E ctx step rest (result @ [prepModuleName])
                  (hookCaught E ctx step we prepModuleName w))
      else hooksLoop E ctx step rest result w)"

text \<open>\<open>handleProjectBuildHooks\<close> (lines 138--188).\<close>

definition handleProjectBuildHooks ::
  "env \<Rightarrow> PublishCommandHandlerContext \<Rightarrow> BuildLifecycleStep \<Rightarrow> world
     \<Rightarrow> (exn + string list) \<times> world" where
  "handleProjectBuildHooks E ctx step w =
     (let (entries, failure) = expandGlobSync E (cwd E) (buildLifecyleHandlerGlob ctx);
          w1 = emit (ExpandGlob (cwd E) (buildLifecyleHandlerGlob ctx)) w
      in case hooksLoop E ctx step entries [] w1 of
           (Inl e, w2) \<Rightarrow> (Inl e, w2)
         | (Inr result, w2) \<Rightarrow>
             (case failure of Some e \<Rightarrow> (Inl e, w2) | None \<Rightarrow> (Inr result, w2)))"

text \<open>
  The value the promise of an \<open>async\<close> method resolves to: \<open>undefined\<close> when the method
  has no \<open>return\<close>, or the array of names.
\<close>

datatype resolved = Undefined | StringArray "string list"

text \<open>\<open>prepareBuild\<close> (lines 190--194) returns what the hook executor returns.\<close>

definition prepareBuild ::
  "env \<Rightarrow> PublishCommandHandlerContext \<Rightarrow> world \<Rightarrow> (exn + resolved) \<times> world" where
  "prepareBuild E ctx w =
     (case handleProjectBuildHooks E ctx PREPARE w of
        (Inl e, w') \<Rightarrow> (Inl e, w')
      | (Inr names, w') \<Rightarrow> (Inr (StringArray names), w'))"

text \<open>\<open>finalizeBuild\<close> (lines 208--212) awaits the hook executor and returns nothing.\<close>

definition finalizeBuild ::
  "env \<Rightarrow> PublishCommandHandlerContext \<Rightarrow> world \<Rightarrow> (exn + resolved) \<times> world" where
  "finalizeBuild E ctx w =
     (case handleProjectBuildHooks E ctx FINALIZE w of
        (Inl e, w') \<Rightarrow> (Inl e, w')
      | (Inr names, w') \<Rightarrow> (Inr Undefined, w'))"

text \<open>\<open>build\<close> (lines 196--206).\<close>

definition build ::
  "env \<Rightarrow> PublishCommandHandlerContext \<Rightarrow> world \<Rightarrow> (exn + resolved) \<times> world" where
  "build E ctx w =
     (case prepareBuild E ctx w of
        (Inl e, w1) \<Rightarrow> (Inl e, w1)
      | (Inr _, w1) \<Rightarrow>
          (let (updatePkgs, w2) = reportShellCmd ctx ''hugox'' w1
           in case awaitShell E ctx updatePkgs w2 of
                (Inl e, w3) \<Rightarrow> (Inl e, w3)
              | (Inr _, w3) \<Rightarrow>
                  (case finalizeBuild E ctx w3 of
                     (Inl e, w4) \<Rightarrow> (Inl e, w4)
                   | (Inr _, w4) \<Rightarrow> (Inr Undefined, w4))))"

text \<open>
  The \<open>forEach\<close> of \<open>clean\<close> (lines 222--231) over the names that are left. The names go
  to \<open>fs.existsSync\<close> and \<open>Deno.removeSync\<close> as they are.
\<close>

fun cleanEach ::
  "env \<Rightarrow> PublishCommandHandlerContext \<Rightarrow> string list \<Rightarrow> world \<Rightarrow> (exn + unit) \<times> world" where
  "cleanEach E ctx [] w = (Inr (), w)"
| "cleanEach E ctx (f # rest) w =
     (let w1 = emit (ExistsSync (resolvePath (cwd E) f)) w
      in if existsSync E f w1
         then (if isDryRun ctx
               then cleanEach E ctx rest (emit (ConsoleLog [Str ''delete'', Str (red f)]) w1)
               else (case removeSync E f w1 of
                       Inl e \<Rightarrow> (Inl e, w1)
                     | Inr w2 \<Rightarrow>
                         cleanEach E ctx rest
                           (if isVerbose ctx
                            then emit (ConsoleLog [Str (red (''deleted '' @ f))]) w2
                            else w2)))
         else cleanEach E ctx rest w1)"

text \<open>\<open>clean\<close> (lines 214--232).\<close>

definition clean ::
  "env \<Rightarrow> PublishCommandHandlerContext \<Rightarrow> world \<Rightarrow> (exn + resolved) \<times> world" where
  "clean E ctx w =
     (let (hugoModClean, w1) = reportShellCmd ctx ''hugox mod clean --all'' w
      in case awaitShell E ctx hugoModClean w1 of
           (Inl e, w2) \<Rightarrow> (Inl e, w2)
         | (Inr _, w2) \<Rightarrow>
             (case cleanEach E ctx [''go.sum'', ''public'', ''resources''] w2 of
                (Inl e, w3) \<Rightarrow> (Inl e, w3)
              | (Inr _, w3) \<Rightarrow> (Inr Undefined, w3)))"

text \<open>\<open>Array.prototype.join\<close>.\<close>

fun join :: "string \<Rightarrow> string list \<Rightarrow> string" where
  "join sep [] = []"
| "join sep [x] = x"
| "join sep (x # y # ys) = x @ sep @ join sep (y # ys)"

text \<open>\<open>update\<close> (lines 239--249).\<close>

definition update ::
  "env \<Rightarrow> PublishCommandHandlerContext \<Rightarrow> world \<Rightarrow> (exn + resolved) \<times> world" where
  "update E ctx w =
     (case getPrepareBuildSubmoduleRelNames E ctx w of
        (Inl e, w1) \<Rightarrow> (Inl e, w1)
      | (Inr names, w1) \<Rightarrow>
          (let (updatePkgs, w2) = reportShellCmd ctx (''udd pubctl.ts '' @ join '' '' names) w1
           in case awaitShell E ctx updatePkgs w2 of
                (Inl e, w3) \<Rightarrow> (Inl e, w3)
              | (Inr _, w3) \<Rightarrow> (Inr Undefined, w3)))"

section \<open>The built-in handlers and the dispatcher\<close>

text \<open>
  A handler resolves to \<open>true\<close> when it claims the request and to \<open>undefined\<close> when it
  declines (\<open>Promise<true | void>\<close>), or it fails.
\<close>

type_synonym handler = "PublishCommandHandlerContext \<Rightarrow> world \<Rightarrow> (exn + bool) \<times> world"

text \<open>
  The body the four lifecycle handlers share (lines 252--290): when the command key is
  set, await the lifecycle method and return \<open>true\<close>.
\<close>

definition whenCommand ::
  "string \<Rightarrow> (PublishCommandHandlerContext \<Rightarrow> world \<Rightarrow> (exn + resolved) \<times> world) \<Rightarrow> handler"
where
  "whenCommand key method ctx w =
     (if truthy (map_of (cliOptions ctx) key)
      then (case method ctx w of
              (Inl e, w') \<Rightarrow> (Inl e, w')
            | (Inr _, w') \<Rightarrow> (Inr True, w'))
      else (Inr False, w))"

definition prepareBuildHandler :: "env \<Rightarrow> handler" where
  "prepareBuildHandler E = whenCommand ''prepare-build'' (prepareBuild E)"

definition buildHandler :: "env \<Rightarrow> handler" where
  "buildHandler E = whenCommand ''build'' (build E)"

definition cleanHandler :: "env \<Rightarrow> handler" where
  "cleanHandler E = whenCommand ''clean'' (clean E)"

definition updateHandler :: "env \<Rightarrow> handler" where
  "updateHandler E = whenCommand ''update'' (update E)"

text \<open>\<open>determineVersion\<close> (lines 19--24).\<close>

definition determineVersion :: "env \<Rightarrow> string \<Rightarrow> world \<Rightarrow> (exn + string) \<times> world" where
  "determineVersion E importMetaUrl w =
     (determineVersionFromRepoTag E importMetaUrl ''shah/hugo-aide'',
      emit (DetermineVersion importMetaUrl ''shah/hugo-aide'') w)"

text \<open>\<open>versionHandler\<close> (lines 292--305).\<close>

definition versionHandler :: "env \<Rightarrow> handler" where
  "versionHandler E ctx w =
     (if truthy (map_of (cliOptions ctx) ''version'')
      then (let w1 = emit (ConsoleLog [Str (''pubctl '' @ yellow (version (chsOptions ctx)))]) w
            in case determineVersion E (importMetaURL E) w1 of
                 (Inl e, w2) \<Rightarrow> (Inl e, w2)
               | (Inr v, w2) \<Rightarrow>
                   (Inr True, emit (ConsoleLog [Str (''hugo-aide '' @ yellow v)]) w2))
      else (Inr False, w))"

text \<open>\<open>commonHandlers\<close> (lines 307--313), each with the name the trace gives it.\<close>

definition commonHandlers :: "env \<Rightarrow> (handler_ref \<times> handler) list" where
  "commonHandlers E =
     [(PrepareBuildH, prepareBuildHandler E),
      (BuildH, buildHandler E),
      (CleanH, cleanHandler E),
      (UpdateH, updateHandler E),
      (VersionH, versionHandler E)]"

text \<open>
  \<open>CommandHandlerSpecOptions\<close>: the data fields and the three optional callbacks. A
  custom handler is code of the caller: the model knows what it resolves to, not what it
  does.
\<close>

record CommandHandlerSpecOptions = SpecData +
  docoptSpec :: "(SpecData \<Rightarrow> exn + string) option"
  customHandlers :: "(PublishCommandHandlerContext \<Rightarrow> exn + bool) list option"
  prepareContext :: "(SpecData \<Rightarrow> DocOptions \<Rightarrow> exn + PublishCommandHandlerContext) option"

text \<open>\<open>defaultDocoptSpec\<close> (lines 41--62): the template, line by line.\<close>

definition defaultDocoptSpec :: "SpecData \<Rightarrow> string" where
  \<open>defaultDocoptSpec chs =
     concat (map (\<lambda>l. l @ [CHR 0x0A])
       ['''',
        ''Publication Controller '' @ version chs @ ''.'',
        '''',
        ''Usage:'',
        ''  pubctl prepare-build [--project] [--build-hooks] [--dry-run] [--verbose]'',
        ''  pubctl build [--project] [--build-hooks] [--dry-run] [--verbose]'',
        ''  pubctl clean [--dry-run] [--verbose]'',
        ''  pubctl update [--dry-run] [--verbose]'',
        ''  pubctl version'',
        ''  pubctl -h | --help'',
        '''',
        ''Options:'',
        ''  --project        The project's home directory (default Deno.cwd())'',
        ''  --build-hooks    Deno "prepare-build" modules which will be found and executed (default "**/*/pubctl-hook-build.ts")'',
        ''  --dry-run        Show what will be done (but don't actually do it)'',
        ''  --verbose        Be explicit about what's going on'',
        ''  -h --help        Show this screen''])\<close>

text \<open>
  The loop \<open>for (const handler of hs) { handled = await handler(context); if (handled)
  break; }\<close> (lines 328--331 and 333--336), with the value \<open>handled\<close> has before it.
\<close>

fun runHandlers ::
  "(handler_ref \<times> handler) list \<Rightarrow> PublishCommandHandlerContext \<Rightarrow> bool \<Rightarrow> world
     \<Rightarrow> (exn + bool) \<times> world" where
  "runHandlers [] context handled w = (Inr handled, w)"
| "runHandlers ((r, h) # rest) context handled w =
     (case h context (emit (Invoke r) w) of
        (Inl e, w') \<Rightarrow> (Inl e, w')
      | (Inr handled', w') \<Rightarrow>
          if handled' then (Inr handled', w') else runHandlers rest context handled' w')"

text \<open>The custom handlers, numbered from 0 in the order of the array.\<close>

definition customList ::
  "(PublishCommandHandlerContext \<Rightarrow> exn + bool) list \<Rightarrow> (handler_ref \<times> handler) list" where
  "customList hs = zip (map CustomH [0 ..< length hs]) (map (\<lambda>f ctx w. (f ctx, w)) hs)"

text \<open>
  The grammar string (line 321): the caller's generator when there is one, else the
  default.
\<close>

definition grammar :: "CommandHandlerSpecOptions \<Rightarrow> exn + string" where
  "grammar chs =
     (case docoptSpec chs of
        Some f \<Rightarrow> f (SpecData.truncate chs)
      | None \<Rightarrow> Inr (defaultDocoptSpec (SpecData.truncate chs)))"

text \<open>The context (lines 323--325): the caller's factory when there is one.\<close>

definition makeContext ::
  "env \<Rightarrow> CommandHandlerSpecOptions \<Rightarrow> DocOptions \<Rightarrow> exn + PublishCommandHandlerContext" where
  "makeContext E chs cliOpts =
     (case prepareContext chs of
        Some f \<Rightarrow> f (SpecData.truncate chs) cliOpts
      | None \<Rightarrow> Inr (newContext (cwd E) (SpecData.truncate chs) cliOpts))"

text \<open>
  Handler resolution (lines 326--340). The loop over \<open>commonHandlers\<close> follows the loop
  over the custom handlers with no test of \<open>handled\<close> in between.
\<close>

definition dispatch ::
  "env \<Rightarrow> CommandHandlerSpecOptions \<Rightarrow> DocOptions \<Rightarrow> PublishCommandHandlerContext \<Rightarrow> world
     \<Rightarrow> (exn + unit) \<times> world" where
  "dispatch E chs cliOpts context w =
     (case (case customHandlers chs of
              Some hs \<Rightarrow> runHandlers (customList hs) context False w
            | None \<Rightarrow> (Inr False, w)) of
        (Inl e, w2) \<Rightarrow> (Inl e, w2)
      | (Inr handled, w2) \<Rightarrow>
          (case runHandlers (commonHandlers E) context handled w2 of
             (Inl e, w3) \<Rightarrow> (Inl e, w3)
           | (Inr handled', w3) \<Rightarrow>
               if \<not> handled'
               then (Inr (),
                     emit (ConsoleDir cliOpts)
                       (emit (ConsoleError ''Unable to handle validly parsed docoptSpec:'') w3))
               else (Inr (), w3)))"

text \<open>The \<open>try\<close> block of \<open>CLI\<close> (lines 320--340).\<close>

definition CLI_try :: "env \<Rightarrow> CommandHandlerSpecOptions \<Rightarrow> world \<Rightarrow> (exn + unit) \<times> world" where
  "CLI_try E chs w =
     (case grammar chs of
        Inl e \<Rightarrow> (Inl e, w)
      | Inr doc \<Rightarrow>
          (let w1 = emit (Docopt doc) w
           in case docopt E doc of
                Inl e \<Rightarrow> (Inl e, w1)
              | Inr cliOpts \<Rightarrow>
                  (case makeContext E chs cliOpts of
                     Inl e \<Rightarrow> (Inl e, w1)
                   | Inr context \<Rightarrow> dispatch E chs cliOpts context w1)))"

text \<open>
  \<open>CLI\<close> (lines 315--344): the \<open>try\<close> block and its \<open>catch\<close> clause, which is
  \<open>console.error(e.message)\<close>. What the \<open>catch\<close> clause throws leaves \<open>CLI\<close>.
\<close>

definition CLI :: "env \<Rightarrow> CommandHandlerSpecOptions \<Rightarrow> world \<Rightarrow> (exn + unit) \<times> world" where
  "CLI E chs w =
     (case CLI_try E chs w of
        (Inl e, w') \<Rightarrow>
          (case messageOf e of
             Inl typeError \<Rightarrow> (Inl typeError, w')
           | Inr m \<Rightarrow> (Inr (), emit (ConsoleError m) w'))
      | (Inr u, w') \<Rightarrow> (Inr u, w'))"

section \<open>An example environment\<close>

text \<open>
  \<open>path.relative\<close> of the POSIX flavour, for absolute normalised paths: the segments of
  both paths after their common prefix, with one \<open>..\<close> for each segment left of \<open>from\<close>.
\<close>

fun splitPath :: "string \<Rightarrow> string \<Rightarrow> string list" where
  "splitPath seg [] = (if seg = [] then [] else [seg])"
| "splitPath seg (c # cs) =
     (if c = CHR ''/''
      then (if seg = [] then [] else [seg]) @ splitPath [] cs
      else splitPath (seg @ [c]) cs)"

fun stripCommon :: "string list \<Rightarrow> string list \<Rightarrow> string list \<times> string list" where
  "stripCommon (x # xs) (y # ys) = (if x = y then stripCommon xs ys else (x # xs, y # ys))"
| "stripCommon xs ys = (xs, ys)"

definition posixRelative :: "string \<Rightarrow> string \<Rightarrow> string" where
  "posixRelative from to =
     (let (up, down) = stripCommon (splitPath [] from) (splitPath [] to)
      in join ''/'' (map (\<lambda>_. ''..'') up @ down))"

text \<open>
  A project on a POSIX system. The process runs in \<open>/work\<close>; \<open>tree\<close> gives, for a root
  directory, the entries that match the hook pattern below it; \<open>modules\<close> gives what a
  module URL loads to (a URL that is not listed fails to load); \<open>argv\<close> is the parsed
  command line; the shell runner and the version lookup succeed.
\<close>

definition exampleEnv ::
  "(string \<times> WalkEntry list) list \<Rightarrow> (string \<times> default_export) list \<Rightarrow> DocOptions \<Rightarrow> env" where
  "exampleEnv tree modules argv =
     \<lparr> cwd = ''/work'',
       docopt = (\<lambda>doc. Inr argv),
       expandGlobSync = (\<lambda>root glob.
         case map_of tree root of Some entries \<Rightarrow> (entries, None) | None \<Rightarrow> ([], None)),
       relative = (\<lambda>from to.
         case from of
           VString dir \<Rightarrow> Inr (posixRelative dir to)
         | _ \<Rightarrow> Inl (Error ''Path must be a string'')),
       toFileUrl = (\<lambda>p.
         if isAbsolute p then Inr (''file://'' @ p)
         else Inl (Error ''Must be an absolute path.'')),
       importModule = (\<lambda>url.
         case map_of modules url of
           Some m \<Rightarrow> Inr m
         | None \<Rightarrow> Inl (Error ''Cannot resolve module'')),
       runShellCommand = (\<lambda>cmd verbose dryRun. None),
       determineVersionFromRepoTag = (\<lambda>url repo. Inr ''v0.2.0''),
       importMetaURL = ''https://denopkg.com/shah/hugo-aide/publish.ts'' \<rparr>"

text \<open>The entries of the example: a hook file, and a directory with the hook's name.\<close>

definition siteHook :: WalkEntry where
  "siteHook = \<lparr> path = ''/work/site/pubctl-hook-build.ts'', isFile = True \<rparr>"

definition docsDir :: WalkEntry where
  "docsDir = \<lparr> path = ''/work/docs/pubctl-hook-build.ts'', isFile = False \<rparr>"

definition themeHook :: WalkEntry where
  "themeHook = \<lparr> path = ''/work/theme/pubctl-hook-build.ts'', isFile = True \<rparr>"

definition projHook :: WalkEntry where
  "projHook = \<lparr> path = ''/proj/theme/pubctl-hook-build.ts'', isFile = True \<rparr>"

text \<open>The spec options of the entry point the source's closing comment shows.\<close>

definition exampleSpec :: CommandHandlerSpecOptions where
  "exampleSpec =
     \<lparr> calledFromMetaURL = ''file:///work/pubctl.ts'',
       calledFromMain = True,
       version = ''v0.1.0'',
       specProjectHome = None,
       docoptSpec = None,
       customHandlers = None,
       prepareContext = None \<rparr>"

section \<open>Predicates the properties are stated with\<close>

text \<open>
  An effect that changes nothing outside the program: anything but a filesystem removal,
  a call of a hook's default function, or a shell command that is really executed.
\<close>

fun harmless :: "event \<Rightarrow> bool" where
  "harmless (RemoveSync p) = False"
| "harmless (HookCall name step) = False"
| "harmless e = (\<not> executesShell e)"

text \<open>
  From \<open>w\<close> to \<open>w'\<close> the trace has only grown, and every new event satisfies \<open>P\<close>.
\<close>

definition onlyEmits :: "(event \<Rightarrow> bool) \<Rightarrow> world \<Rightarrow> world \<Rightarrow> bool" where
  "onlyEmits P w w' =
     (take (length (trace w)) (trace w') = trace w \<and>
      list_all P (drop (length (trace w)) (trace w')))"

text \<open>
  From \<open>w\<close> to \<open>w'\<close> nothing was deleted, no promise was left behind and every new
  event is harmless.
\<close>

definition quiet :: "world \<Rightarrow> world \<Rightarrow> bool" where
  "quiet w w' =
     (files w' = files w \<and> floating w' = floating w \<and> onlyEmits harmless w w')"

text \<open>A filesystem call acts on one of the paths \<open>ps\<close>; other events are unrestricted.\<close>

definition touchesOnly :: "string list \<Rightarrow> event \<Rightarrow> bool" where
  "touchesOnly ps e =
     (case e of ExistsSync q \<Rightarrow> q \<in> set ps | RemoveSync q \<Rightarrow> q \<in> set ps | _ \<Rightarrow> True)"

text \<open>
  The load of the module \<open>url\<close> was attempted and reported under the name \<open>name\<close>: as
  imported when it loads, with its name and the error when it does not.
\<close>

definition loadReported :: "env \<Rightarrow> BuildLifecycleStep \<Rightarrow> string \<Rightarrow> string \<Rightarrow> event list \<Rightarrow> bool" where
  "loadReported E step url name evs =
     (Import url \<in> set evs \<and>
      (case importModule E url of
         Inr m \<Rightarrow>
           ConsoleLog [Str (stepName step), Str (yellow name), Str (green ''imported'')] \<in> set evs
       | Inl e \<Rightarrow>
           ConsoleLog [Str (brightRed name)] \<in> set evs \<and> ConsoleLog [ErrObj e] \<in> set evs))"

text \<open>
  The paths of the regular files the pattern matches when it is expanded from \<open>root\<close>,
  in the order the walker yields them (the words of the spec's hook locator).
\<close>

definition locatedAt :: "env \<Rightarrow> string \<Rightarrow> docopt_value \<Rightarrow> string list" where
  "locatedAt E root glob = map path (filter isFile (fst (expandGlobSync E root glob)))"

text \<open>The module URLs the program imported, in order.\<close>

fun importedUrls :: "event list \<Rightarrow> string list" where
  "importedUrls [] = []"
| "importedUrls (Import url # evs) = url # importedUrls evs"
| "importedUrls (_ # evs) = importedUrls evs"

section \<open>Example runs\<close>

text \<open>
  What docopt returns for \<open>pubctl build\<close>, \<open>pubctl build --dry-run\<close> and
  \<open>pubctl clean\<close> under the default grammar.
\<close>

definition buildArgv :: DocOptions where
  "buildArgv =
     [(''prepare-build'', VBool False), (''build'', VBool True), (''clean'', VBool False),
      (''update'', VBool False), (''version'', VBool False), (''--project'', VBool False),
      (''--build-hooks'', VBool False), (''--dry-run'', VBool False),
      (''--verbose'', VBool False), (''--help'', VBool False)]"

definition dryRunArgv :: DocOptions where
  "dryRunArgv =
     [(''prepare-build'', VBool False), (''build'', VBool True), (''clean'', VBool False),
      (''update'', VBool False), (''version'', VBool False), (''--project'', VBool False),
      (''--build-hooks'', VBool False), (''--dry-run'', VBool True),
      (''--verbose'', VBool False), (''--help'', VBool False)]"

definition cleanArgv :: DocOptions where
  "cleanArgv =
     [(''prepare-build'', VBool False), (''build'', VBool False), (''clean'', VBool True),
      (''update'', VBool False), (''version'', VBool False), (''--project'', VBool False),
      (''--build-hooks'', VBool False), (''--dry-run'', VBool False),
      (''--verbose'', VBool False), (''--help'', VBool False)]"

text \<open>The context of \<open>pubctl build --dry-run\<close> in \<open>/work\<close>.\<close>

definition dryContext :: PublishCommandHandlerContext where
  "dryContext = newContext ''/work'' (SpecData.truncate exampleSpec) dryRunArgv"

text \<open>
  A publication with a command of its own, \<open>deploy\<close>: its grammar, what docopt returns
  for \<open>pubctl deploy\<close>, and the custom handler that serves the command.
\<close>

definition deployGrammar :: "SpecData \<Rightarrow> exn + string" where
  "deployGrammar chs = Inr ''Usage: pubctl (deploy | prepare-build | build | clean | update | version)''"

definition deployArgv :: DocOptions where
  "deployArgv =
     [(''deploy'', VBool True), (''prepare-build'', VBool False), (''build'', VBool False),
      (''clean'', VBool False), (''update'', VBool False), (''version'', VBool False)]"

definition deployHandler :: "PublishCommandHandlerContext \<Rightarrow> exn + bool" where
  "deployHandler ctx =
     (if truthy (map_of (cliOptions ctx) ''deploy'') then Inr True else Inr False)"

text \<open>
  A custom handler that claims every request, and one whose promise is rejected with
  \<open>undefined\<close> (\<open>() => Promise.reject()\<close>).
\<close>

definition claimAll :: "PublishCommandHandlerContext \<Rightarrow> exn + bool" where
  "claimAll ctx = Inr True"

definition rejectsWithUndefined :: "PublishCommandHandlerContext \<Rightarrow> exn + bool" where
  "rejectsWithUndefined ctx = Inl ThrownUndefined"

text \<open>
  Default functions of hook modules, all \<open>async\<close> as in the example of the source: one
  that is suspended at an \<open>await\<close> when the call returns, one that throws, and one that
  has completed.
\<close>

definition asyncHook :: "PublishCommandHandlerContext \<Rightarrow> BuildLifecycleStep \<Rightarrow> call_result" where
  "asyncHook ctx step = Returns Pending"

definition rejectingHook :: "PublishCommandHandlerContext \<Rightarrow> BuildLifecycleStep \<Rightarrow> call_result" where
  "rejectingHook ctx step = Returns (Rejected (Error ''boom''))"

definition goodHook :: "PublishCommandHandlerContext \<Rightarrow> BuildLifecycleStep \<Rightarrow> call_result" where
  "goodHook ctx step = Returns Fulfilled"

text \<open>
  Environments: nothing matches the pattern; a hook file and a directory match; only the
  directory matches; and the project is at \<open>/proj\<close> while the process runs in \<open>/work\<close>,
  with a hook file below each.
\<close>

definition plainEnv :: env where
  "plainEnv = exampleEnv [] [] buildArgv"

definition siteEnv :: env where
  "siteEnv =
     exampleEnv [(''/work'', [docsDir, siteHook])]
       [(''file:///work/site/pubctl-hook-build.ts'', Function goodHook)] buildArgv"

definition docsOnlyEnv :: env where
  "docsOnlyEnv = exampleEnv [(''/work'', [docsDir])] [] buildArgv"

definition splitEnv :: env where
  "splitEnv =
     exampleEnv [(''/work'', [docsDir, siteHook]), (''/proj'', [projHook])]
       [(''file:///work/site/pubctl-hook-build.ts'', Function goodHook),
        (''file:///proj/theme/pubctl-hook-build.ts'', Function goodHook)] buildArgv"

definition projContext :: PublishCommandHandlerContext where
  "projContext =
     newContext ''/work'' (SpecData.truncate (exampleSpec\<lparr>specProjectHome := Some ''/proj''\<rparr>))
       buildArgv"

definition fileUrl :: "string \<Rightarrow> string" where
  "fileUrl p = ''file://'' @ p"

text \<open>The filesystem after a build: the lock file, the output directory, the content.\<close>

definition builtSite :: world where
  "builtSite =
     start [''/work/go.sum'', ''/work/public'', ''/work/public/index.html'', ''/work/content'']"

section \<open>Unfolding the model\<close>

lemmas method_defs =
  prepareBuild_def finalizeBuild_def build_def clean_def update_def
  handleProjectBuildHooks_def hookCaught_def tryHook_def getPrepareBuildSubmoduleRelNames_def
  reportShellCmd_def awaitShell_def existsSync_def removeSync_def resolvePath_def isAbsolute_def
  emit_def start_def newContext_def orDefault_def Let_def

lemmas dispatcher_defs =
  CLI_def CLI_try_def grammar_def makeContext_def dispatch_def customList_def commonHandlers_def
  prepareBuildHandler_def buildHandler_def cleanHandler_def updateHandler_def versionHandler_def
  whenCommand_def determineVersion_def SpecData.truncate_def

section \<open>Traces only grow\<close>

lemma onlyEmits_iff:
  "onlyEmits P w w' \<longleftrightarrow> (\<exists>evs. trace w' = trace w @ evs \<and> list_all P evs)"
  unfolding onlyEmits_def
  by (metis append_eq_conv_conj append_take_drop_id)

lemma onlyEmits_refl: "onlyEmits P w w"
  by (simp add: onlyEmits_def)

lemma onlyEmits_trans: "onlyEmits P w w' \<Longrightarrow> onlyEmits P w' w'' \<Longrightarrow> onlyEmits P w w''"
  unfolding onlyEmits_iff by auto

lemma onlyEmits_emit: "P e \<Longrightarrow> onlyEmits P w w' \<Longrightarrow> onlyEmits P w (emit e w')"
  unfolding onlyEmits_iff by (auto simp: emit_def)

lemma onlyEmits_mono:
  "onlyEmits P w w' \<Longrightarrow> (\<And>e. P e \<Longrightarrow> Q e) \<Longrightarrow> onlyEmits Q w w'"
  unfolding onlyEmits_iff by (auto simp: list_all_iff)

lemma quiet_iff:
  "quiet w w' \<longleftrightarrow>
     files w' = files w \<and> floating w' = floating w \<and>
     (\<exists>evs. trace w' = trace w @ evs \<and> list_all harmless evs)"
  by (simp add: quiet_def onlyEmits_iff)

lemma quiet_refl: "quiet w w"
  by (simp add: quiet_def onlyEmits_refl)

lemma quiet_trans: "quiet w w' \<Longrightarrow> quiet w' w'' \<Longrightarrow> quiet w w''"
  unfolding quiet_iff by auto

lemma quiet_emit: "harmless e \<Longrightarrow> quiet w w' \<Longrightarrow> quiet w (emit e w')"
  unfolding quiet_iff by (auto simp: emit_def)

lemma quiet_trace_mono: "quiet w w' \<Longrightarrow> set (trace w) \<subseteq> set (trace w')"
  unfolding quiet_iff by auto

section \<open>The constructor: verbose is implied by dry-run\<close>

text \<open>
  C9. When \<open>--dry-run\<close> is set the constructed context has \<open>isDryRun\<close> and \<open>isVerbose\<close>
  both true, whatever \<open>--verbose\<close> is (in particular when it is unset); when
  \<open>--dry-run\<close> is not set, \<open>isDryRun\<close> is false and \<open>isVerbose\<close> is the \<open>--verbose\<close> flag.
\<close>

theorem verbose_implied_by_dry_run:
  "(truthy (map_of cli ''--dry-run'') \<longrightarrow>
      isDryRun (newContext denoCwd chs cli) \<and> isVerbose (newContext denoCwd chs cli)) \<and>
   (\<not> truthy (map_of cli ''--dry-run'') \<longrightarrow>
      \<not> isDryRun (newContext denoCwd chs cli) \<and>
      isVerbose (newContext denoCwd chs cli) = truthy (map_of cli ''--verbose''))"
  by (simp add: newContext_def Let_def)

text \<open>
  C9, at two command lines: \<open>--dry-run\<close> without \<open>--verbose\<close>, where the context is
  verbose all the same, and \<open>--verbose\<close> without \<open>--dry-run\<close>.
\<close>

theorem verbose_implied_by_dry_run_witness:
  "truthy (map_of [(''--dry-run'', VBool True), (''--verbose'', VBool False)] ''--dry-run'') \<and>
   isDryRun (newContext ''/work'' (SpecData.truncate exampleSpec)
     [(''--dry-run'', VBool True), (''--verbose'', VBool False)]) \<and>
   isVerbose (newContext ''/work'' (SpecData.truncate exampleSpec)
     [(''--dry-run'', VBool True), (''--verbose'', VBool False)]) \<and>
   \<not> truthy (map_of [(''--dry-run'', VBool False), (''--verbose'', VBool True)] ''--dry-run'') \<and>
   \<not> isDryRun (newContext ''/work'' (SpecData.truncate exampleSpec)
     [(''--dry-run'', VBool False), (''--verbose'', VBool True)]) \<and>
   isVerbose (newContext ''/work'' (SpecData.truncate exampleSpec)
     [(''--dry-run'', VBool False), (''--verbose'', VBool True)]) =
   truthy (map_of [(''--dry-run'', VBool False), (''--verbose'', VBool True)] ''--verbose'')"
proof -
  have dry:
    "truthy (map_of [(''--dry-run'', VBool True), (''--verbose'', VBool False)] ''--dry-run'')"
    by simp
  have nodry:
    "\<not> truthy (map_of [(''--dry-run'', VBool False), (''--verbose'', VBool True)] ''--dry-run'')"
    by simp
  note a = verbose_implied_by_dry_run
    [of "[(''--dry-run'', VBool True), (''--verbose'', VBool False)]" "''/work''"
        "SpecData.truncate exampleSpec", THEN conjunct1, THEN mp, OF dry]
  note b = verbose_implied_by_dry_run
    [of "[(''--dry-run'', VBool False), (''--verbose'', VBool True)]" "''/work''"
        "SpecData.truncate exampleSpec", THEN conjunct2, THEN mp, OF nodry]
  from dry nodry a b show ?thesis by blast
qed

section \<open>The dispatcher\<close>

text \<open>
  C1. The claim: when a custom handler claims the request, no built-in handler is
  invoked. The code runs the loop over \<open>commonHandlers\<close> after the loop over the custom
  handlers whatever \<open>handled\<close> is. In the first run the custom handler serves \<open>deploy\<close>
  and claims it; all five built-in handlers are invoked all the same, the last one leaves
  \<open>handled\<close> undefined, and the dispatcher reports the request as unhandled. In the
  second run a custom handler claims \<open>build\<close>; the built-in \<open>prepare-build\<close> and
  \<open>build\<close> handlers are invoked and the generation command runs.
\<close>

theorem custom_claim_still_runs_builtins:
  "CLI (exampleEnv [] [] deployArgv)
     (exampleSpec\<lparr>docoptSpec := Some deployGrammar, customHandlers := Some [deployHandler]\<rparr>)
     (start []) =
     (Inr (),
      \<lparr>trace =
         [Docopt ''Usage: pubctl (deploy | prepare-build | build | clean | update | version)'',
          Invoke (CustomH 0),
          Invoke PrepareBuildH,
          Invoke BuildH,
          Invoke CleanH,
          Invoke UpdateH,
          Invoke VersionH,
          ConsoleError ''Unable to handle validly parsed docoptSpec:'',
          ConsoleDir deployArgv],
       files = [], floating = []\<rparr>) \<and>
   CLI (exampleEnv [] [] buildArgv) (exampleSpec\<lparr>customHandlers := Some [claimAll]\<rparr>) (start []) =
     (Inr (),
      \<lparr>trace =
         [Docopt (defaultDocoptSpec (SpecData.truncate exampleSpec)),
          Invoke (CustomH 0),
          Invoke PrepareBuildH,
          Invoke BuildH,
          ExpandGlob ''/work'' (VString ''**/*/pubctl-hook-build.ts''),
          RunShellCommand ''hugox'' False False,
          ExpandGlob ''/work'' (VString ''**/*/pubctl-hook-build.ts'')],
       files = [], floating = []\<rparr>)"
  by (simp add: dispatcher_defs method_defs exampleEnv_def exampleSpec_def deployArgv_def
      deployGrammar_def deployHandler_def buildArgv_def claimAll_def)

text \<open>
  The part of first-match dispatch that the custom loop does implement: the custom
  handlers up to the first one that claims the request are invoked once each, in order,
  and the ones after it are not invoked.
\<close>

lemma customLoop_from:
  "k < length hs \<Longrightarrow> (hs ! k) ctx = Inr True \<Longrightarrow> (\<forall>i<k. (hs ! i) ctx = Inr False) \<Longrightarrow>
   runHandlers (zip (map CustomH [n ..< n + length hs]) (map (\<lambda>f ctx w. (f ctx, w)) hs))
     ctx handled w =
     (Inr True, w\<lparr>trace := trace w @ map (\<lambda>i. Invoke (CustomH i)) [n ..< n + Suc k]\<rparr>)"
proof (induction hs arbitrary: k n handled w)
  case Nil
  then show ?case by simp
next
  case (Cons h hs)
  have up: "[n ..< n + length (h # hs)] = n # [Suc n ..< Suc n + length hs]"
    by (subst upt_rec) simp
  show ?case
  proof (cases k)
    case 0
    with Cons.prems have "h ctx = Inr True" by simp
    with 0 show ?thesis unfolding up by (simp add: emit_def)
  next
    case (Suc j)
    with Cons.prems have h: "h ctx = Inr False" by auto
    have j: "j < length hs" "(hs ! j) ctx = Inr True" "\<forall>i<j. (hs ! i) ctx = Inr False"
      using Cons.prems Suc by auto
    have ups: "[n ..< n + Suc (Suc j)] = n # [Suc n ..< Suc n + Suc j]"
      by (subst upt_rec) simp
    show ?thesis
      unfolding up Suc ups
      using Cons.IH [OF j, of "Suc n" False "emit (Invoke (CustomH n)) w"] h
      by (simp add: emit_def)
  qed
qed

lemma custom_first_match:
  assumes "k < length hs" and "(hs ! k) ctx = Inr True" and "\<forall>i<k. (hs ! i) ctx = Inr False"
  shows "runHandlers (customList hs) ctx False w =
     (Inr True, w\<lparr>trace := trace w @ map (\<lambda>i. Invoke (CustomH i)) [0 ..< Suc k]\<rparr>)"
  using customLoop_from [OF assms, of 0 False w] by (simp add: customList_def)

text \<open>
  C6. The claim: every exception raised during parsing, context construction or handler
  execution is caught inside \<open>CLI\<close> and logged, and \<open>CLI\<close> never propagates an
  exception. In the first run a custom handler's promise is rejected with \<open>undefined\<close>:
  the \<open>catch\<close> clause reads \<open>e.message\<close> of it, which throws, and \<open>CLI\<close> ends with that
  \<open>TypeError\<close> and nothing logged. In the second run, \<open>pubctl build\<close> with a hook whose
  default function throws, the exception raised while the build handler runs never
  reaches the \<open>catch\<close> clause, since the hook's promise is not awaited: \<open>CLI\<close> returns
  with nothing on \<open>console.error\<close> and the rejected promises left behind.
\<close>

theorem CLI_propagates_thrown_undefined:
  "CLI plainEnv (exampleSpec\<lparr>customHandlers := Some [rejectsWithUndefined]\<rparr>) (start []) =
     (Inl (Error ''Cannot read property 'message' of undefined''),
      \<lparr>trace =
         [Docopt (defaultDocoptSpec (SpecData.truncate exampleSpec)),
          Invoke (CustomH 0)],
       files = [], floating = []\<rparr>) \<and>
   CLI
     (exampleEnv [(''/work'', [siteHook])]
        [(''file:///work/site/pubctl-hook-build.ts'', Function rejectingHook)] buildArgv)
     exampleSpec (start []) =
     (Inr (),
      \<lparr>trace =
         [Docopt (defaultDocoptSpec (SpecData.truncate exampleSpec)),
          Invoke PrepareBuildH,
          Invoke BuildH,
          ExpandGlob ''/work'' (VString ''**/*/pubctl-hook-build.ts''),
          Import ''file:///work/site/pubctl-hook-build.ts'',
          HookCall ''site/pubctl-hook-build.ts'' PREPARE,
          RunShellCommand ''hugox'' False False,
          ExpandGlob ''/work'' (VString ''**/*/pubctl-hook-build.ts''),
          Import ''file:///work/site/pubctl-hook-build.ts'',
          HookCall ''site/pubctl-hook-build.ts'' FINALIZE],
       files = [],
       floating =
         [(''site/pubctl-hook-build.ts'', Rejected (Error ''boom'')),
          (''site/pubctl-hook-build.ts'', Rejected (Error ''boom''))]\<rparr>)"
  by (simp add: dispatcher_defs method_defs plainEnv_def exampleEnv_def exampleSpec_def
      buildArgv_def rejectsWithUndefined_def rejectingHook_def siteHook_def posixRelative_def)

text \<open>
  What the \<open>catch\<close> clause of \<open>CLI\<close> does achieve. An \<open>Error\<close> thrown by the grammar
  generator, the parser, the context factory or handler resolution (where the handlers are
  awaited) ends the call with its message on \<open>console.error\<close>, after the effects that
  preceded it.
\<close>

lemma CLI_catches_errors:
  "(grammar chs = Inl (Error m) \<longrightarrow> CLI E chs w = (Inr (), emit (ConsoleError m) w)) \<and>
   (grammar chs = Inr doc \<longrightarrow> docopt E doc = Inl (Error m) \<longrightarrow>
      CLI E chs w = (Inr (), emit (ConsoleError m) (emit (Docopt doc) w))) \<and>
   (grammar chs = Inr doc \<longrightarrow> docopt E doc = Inr cliOpts \<longrightarrow>
    makeContext E chs cliOpts = Inl (Error m) \<longrightarrow>
      CLI E chs w = (Inr (), emit (ConsoleError m) (emit (Docopt doc) w))) \<and>
   (grammar chs = Inr doc \<longrightarrow> docopt E doc = Inr cliOpts \<longrightarrow>
    makeContext E chs cliOpts = Inr ctx \<longrightarrow>
    dispatch E chs cliOpts ctx (emit (Docopt doc) w) = (Inl (Error m), w') \<longrightarrow>
      CLI E chs w = (Inr (), emit (ConsoleError m) w'))"
  by (simp add: CLI_def CLI_try_def Let_def)

text \<open>
  The exception of a built-in handler reaches the \<open>catch\<close> clause: when \<open>build\<close> fails
  with an \<open>Error\<close> (the shell runner throws, say), \<open>pubctl build\<close> ends with its message
  logged.
\<close>

lemma build_failure_is_logged:
  assumes "customHandlers chs = None"
    and "grammar chs = Inr doc"
    and "docopt E doc = Inr cliOpts"
    and "makeContext E chs cliOpts = Inr ctx"
    and "\<not> truthy (map_of (cliOptions ctx) ''prepare-build'')"
    and "truthy (map_of (cliOptions ctx) ''build'')"
    and "build E ctx (emit (Invoke BuildH) (emit (Invoke PrepareBuildH) (emit (Docopt doc) w))) =
           (Inl (Error m), w')"
  shows "CLI E chs w = (Inr (), emit (ConsoleError m) w')"
  using assms
  by (simp add: CLI_def CLI_try_def dispatch_def commonHandlers_def prepareBuildHandler_def
      buildHandler_def whenCommand_def Let_def)

text \<open>\<open>CLI\<close> returns normally unless the value that reaches the \<open>catch\<close> clause is
  \<open>undefined\<close> or \<open>null\<close>.\<close>

lemma CLI_returns_unless_nullish:
  "fst (CLI_try E chs w) \<noteq> Inl ThrownUndefined \<Longrightarrow> fst (CLI_try E chs w) \<noteq> Inl ThrownNull \<Longrightarrow>
   fst (CLI E chs w) = Inr ()"
  by (cases "CLI_try E chs w"; cases "fst (CLI_try E chs w)")
     (auto simp: CLI_def split: sum.splits elim: messageOf.elims)

section \<open>Hook location\<close>

lemma importedUrls_append: "importedUrls (xs @ ys) = importedUrls xs @ importedUrls ys"
  by (induction xs rule: importedUrls.induct) simp_all

lemma relNamesLoop_names:
  "list_all (\<lambda>p. relative E (projectHome ctx) p = Inr (rel p)) (map path (filter isFile entries)) \<Longrightarrow>
   relNamesLoop E ctx entries result = Inr (result @ map rel (map path (filter isFile entries)))"
  by (induction entries arbitrary: result) (auto split: if_splits)

lemma hooksLoop_names:
  "list_all (\<lambda>p. relative E (projectHome ctx) p = Inr (rel p)) (map path (filter isFile entries)) \<Longrightarrow>
   fst (hooksLoop E ctx step entries result w) =
     Inr (result @ map rel (map path (filter isFile entries)))"
  by (induction entries arbitrary: result w) (auto split: if_splits)

lemma hookCaught_imports:
  "toFileUrl E (path we) = Inr url \<Longrightarrow>
   importedUrls (trace (hookCaught E ctx step we name w)) = importedUrls (trace w) @ [url]"
  by (auto simp: hookCaught_def tryHook_def emit_def Let_def importedUrls_append
      split: sum.splits default_export.splits call_result.splits)

lemma hooksLoop_imports:
  "list_all (\<lambda>p. relative E (projectHome ctx) p = Inr (rel p)) (map path (filter isFile entries)) \<Longrightarrow>
   list_all (\<lambda>p. toFileUrl E p = Inr (url p)) (map path (filter isFile entries)) \<Longrightarrow>
   importedUrls (trace (snd (hooksLoop E ctx step entries result w))) =
     importedUrls (trace w) @ map url (map path (filter isFile entries))"
  by (induction entries arbitrary: result w) (auto simp: hookCaught_imports split: if_splits)

lemma hooksLoop_no_files:
  "filter isFile entries = [] \<Longrightarrow> hooksLoop E ctx step entries result w = (Inr result, w)"
  by (induction entries arbitrary: result w) (simp_all split: if_splits)

text \<open>
  C2 as stated fails: the process runs in \<open>/work\<close>, the project root is \<open>/proj\<close>, and
  the file that matches below the project root is \<open>/proj/theme/pubctl-hook-build.ts\<close>.
  The hook executor loads \<open>/work/site/pubctl-hook-build.ts\<close> instead, and the names are
  those of the files below \<open>/work\<close>, taken relative to \<open>/proj\<close>.
\<close>

theorem hooks_not_located_under_project_root:
  "cwd splitEnv = ''/work'' \<and>
   projectHome projContext = VString ''/proj'' \<and>
   locatedAt splitEnv ''/proj'' (buildLifecyleHandlerGlob projContext) =
     [''/proj/theme/pubctl-hook-build.ts''] \<and>
   importedUrls (trace (snd (handleProjectBuildHooks splitEnv projContext PREPARE (start [])))) =
     [''file:///work/site/pubctl-hook-build.ts''] \<and>
   importedUrls (trace (snd (handleProjectBuildHooks splitEnv projContext PREPARE (start [])))) \<noteq>
     [''file:///proj/theme/pubctl-hook-build.ts''] \<and>
   fst (getPrepareBuildSubmoduleRelNames splitEnv projContext (start [])) =
     Inr [''../work/site/pubctl-hook-build.ts''] \<and>
   fst (getPrepareBuildSubmoduleRelNames splitEnv projContext (start [])) \<noteq>
     Inr [''theme/pubctl-hook-build.ts'']"
  by (simp add: method_defs splitEnv_def projContext_def exampleEnv_def exampleSpec_def
      buildArgv_def locatedAt_def goodHook_def SpecData.truncate_def docsDir_def siteHook_def
      projHook_def posixRelative_def)

text \<open>
  C2, amended. Hook location is rooted at the current working directory of the process:
  when the expansion does not fail, and \<open>path.relative\<close> and \<open>path.toFileUrl\<close> accept
  the paths, both methods make one expansion, from \<open>Deno.cwd()\<close>, and handle exactly the
  regular files it yields, in its order; directories are left out. The project root
  decides the names that are returned, not the files that are found.
\<close>

theorem hooks_located_from_cwd:
  assumes "snd (expandGlobSync E (cwd E) (buildLifecyleHandlerGlob ctx)) = None"
    and "list_all (\<lambda>p. relative E (projectHome ctx) p = Inr (rel p))
           (locatedAt E (cwd E) (buildLifecyleHandlerGlob ctx))"
    and "list_all (\<lambda>p. toFileUrl E p = Inr (url p))
           (locatedAt E (cwd E) (buildLifecyleHandlerGlob ctx))"
  shows "getPrepareBuildSubmoduleRelNames E ctx w =
           (Inr (map rel (locatedAt E (cwd E) (buildLifecyleHandlerGlob ctx))),
            emit (ExpandGlob (cwd E) (buildLifecyleHandlerGlob ctx)) w) \<and>
         fst (handleProjectBuildHooks E ctx step w) =
           Inr (map rel (locatedAt E (cwd E) (buildLifecyleHandlerGlob ctx))) \<and>
         importedUrls (trace (snd (handleProjectBuildHooks E ctx step w))) =
           importedUrls (trace w) @ map url (locatedAt E (cwd E) (buildLifecyleHandlerGlob ctx))"
proof -
  obtain entries where
    eg: "expandGlobSync E (cwd E) (buildLifecyleHandlerGlob ctx) = (entries, None)"
    using assms(1) by (cases "expandGlobSync E (cwd E) (buildLifecyleHandlerGlob ctx)") auto
  let ?w1 = "emit (ExpandGlob (cwd E) (buildLifecyleHandlerGlob ctx)) w"
  have rel: "list_all (\<lambda>p. relative E (projectHome ctx) p = Inr (rel p))
               (map path (filter isFile entries))"
    using assms(2) by (simp add: locatedAt_def eg)
  have url: "list_all (\<lambda>p. toFileUrl E p = Inr (url p)) (map path (filter isFile entries))"
    using assms(3) by (simp add: locatedAt_def eg)
  obtain r w2 where loop: "hooksLoop E ctx step entries [] ?w1 = (r, w2)"
    by (cases "hooksLoop E ctx step entries [] ?w1")
  have r: "r = Inr (map rel (map path (filter isFile entries)))"
    using hooksLoop_names [OF rel, where step = step and result = "[]" and w = ?w1]
    by (simp add: loop)
  have "importedUrls (trace w2) =
      importedUrls (trace ?w1) @ map url (map path (filter isFile entries))"
    using hooksLoop_imports [OF rel url, where step = step and result = "[]" and w = ?w1]
    by (simp add: loop)
  then have imp: "importedUrls (trace w2) =
      importedUrls (trace w) @ map url (map path (filter isFile entries))"
    by (simp add: emit_def importedUrls_append)
  have a: "getPrepareBuildSubmoduleRelNames E ctx w =
      (Inr (map rel (map path (filter isFile entries))), ?w1)"
    using relNamesLoop_names [OF rel, where result = "[]"]
    by (simp add: getPrepareBuildSubmoduleRelNames_def eg)
  have b: "handleProjectBuildHooks E ctx step w =
      (Inr (map rel (map path (filter isFile entries))), w2)"
    by (simp add: handleProjectBuildHooks_def eg loop r)
  show ?thesis using a b imp by (simp add: locatedAt_def eg)
qed

text \<open>C2, amended, at the run of the counterexample.\<close>

theorem hooks_located_from_cwd_witness:
  "snd (expandGlobSync splitEnv (cwd splitEnv) (buildLifecyleHandlerGlob projContext)) = None \<and>
   list_all (\<lambda>p. relative splitEnv (projectHome projContext) p = Inr (posixRelative ''/proj'' p))
     (locatedAt splitEnv (cwd splitEnv) (buildLifecyleHandlerGlob projContext)) \<and>
   list_all (\<lambda>p. toFileUrl splitEnv p = Inr (fileUrl p))
     (locatedAt splitEnv (cwd splitEnv) (buildLifecyleHandlerGlob projContext)) \<and>
   locatedAt splitEnv (cwd splitEnv) (buildLifecyleHandlerGlob projContext) =
     [''/work/site/pubctl-hook-build.ts''] \<and>
   getPrepareBuildSubmoduleRelNames splitEnv projContext (start []) =
     (Inr (map (posixRelative ''/proj'')
        (locatedAt splitEnv (cwd splitEnv) (buildLifecyleHandlerGlob projContext))),
      emit (ExpandGlob (cwd splitEnv) (buildLifecyleHandlerGlob projContext)) (start [])) \<and>
   fst (handleProjectBuildHooks splitEnv projContext PREPARE (start [])) =
     Inr (map (posixRelative ''/proj'')
       (locatedAt splitEnv (cwd splitEnv) (buildLifecyleHandlerGlob projContext))) \<and>
   importedUrls (trace (snd (handleProjectBuildHooks splitEnv projContext PREPARE (start [])))) =
     importedUrls (trace (start [])) @
     map fileUrl (locatedAt splitEnv (cwd splitEnv) (buildLifecyleHandlerGlob projContext))"
proof -
  have loc: "locatedAt splitEnv (cwd splitEnv) (buildLifecyleHandlerGlob projContext) =
      [''/work/site/pubctl-hook-build.ts'']"
    by (simp add: locatedAt_def splitEnv_def exampleEnv_def docsDir_def siteHook_def)
  have 1: "snd (expandGlobSync splitEnv (cwd splitEnv) (buildLifecyleHandlerGlob projContext)) = None"
    by (simp add: splitEnv_def exampleEnv_def)
  have 2: "list_all (\<lambda>p. relative splitEnv (projectHome projContext) p =
      Inr (posixRelative ''/proj'' p))
      (locatedAt splitEnv (cwd splitEnv) (buildLifecyleHandlerGlob projContext))"
    unfolding loc
    by (simp add: splitEnv_def exampleEnv_def projContext_def newContext_def orDefault_def
        buildArgv_def exampleSpec_def SpecData.truncate_def)
  have 3: "list_all (\<lambda>p. toFileUrl splitEnv p = Inr (fileUrl p))
      (locatedAt splitEnv (cwd splitEnv) (buildLifecyleHandlerGlob projContext))"
    unfolding loc by (simp add: splitEnv_def exampleEnv_def fileUrl_def isAbsolute_def)
  note T = hooks_located_from_cwd [OF 1 2 3, of "start []" PREPARE]
  from 1 2 3 loc T show ?thesis by blast
qed

text \<open>
  C8 as stated fails: with no match, \<open>finalizeBuild\<close> resolves to \<open>undefined\<close>, not to
  an empty list; the method has no \<open>return\<close>.
\<close>

theorem finalizeBuild_returns_nothing:
  "locatedAt (exampleEnv [] [] buildArgv) (cwd (exampleEnv [] [] buildArgv))
     (buildLifecyleHandlerGlob (newContext ''/work'' (SpecData.truncate exampleSpec) buildArgv)) = [] \<and>
   fst (finalizeBuild (exampleEnv [] [] buildArgv)
     (newContext ''/work'' (SpecData.truncate exampleSpec) buildArgv) (start [])) \<noteq>
     Inr (StringArray []) \<and>
   fst (finalizeBuild (exampleEnv [] [] buildArgv)
     (newContext ''/work'' (SpecData.truncate exampleSpec) buildArgv) (start [])) = Inr Undefined"
  by (simp add: method_defs exampleEnv_def exampleSpec_def buildArgv_def locatedAt_def
      SpecData.truncate_def)

text \<open>
  C8, amended. When the pattern matches no regular file and the expansion does not fail,
  \<open>prepareBuild\<close> returns an empty list and \<open>finalizeBuild\<close> returns nothing, and
  the only effect of either is the expansion of the pattern: no module is loaded and no
  default function is called.
\<close>

theorem empty_hook_set:
  assumes "locatedAt E (cwd E) (buildLifecyleHandlerGlob ctx) = []"
    and "snd (expandGlobSync E (cwd E) (buildLifecyleHandlerGlob ctx)) = None"
  shows "prepareBuild E ctx w =
           (Inr (StringArray []), emit (ExpandGlob (cwd E) (buildLifecyleHandlerGlob ctx)) w) \<and>
         finalizeBuild E ctx w =
           (Inr Undefined, emit (ExpandGlob (cwd E) (buildLifecyleHandlerGlob ctx)) w)"
proof -
  obtain entries where
    eg: "expandGlobSync E (cwd E) (buildLifecyleHandlerGlob ctx) = (entries, None)"
    using assms(2) by (cases "expandGlobSync E (cwd E) (buildLifecyleHandlerGlob ctx)") auto
  have "filter isFile entries = []" using assms(1) by (simp add: locatedAt_def eg)
  then have "handleProjectBuildHooks E ctx step w =
      (Inr [], emit (ExpandGlob (cwd E) (buildLifecyleHandlerGlob ctx)) w)" for step
    by (simp add: handleProjectBuildHooks_def eg hooksLoop_no_files)
  then show ?thesis by (simp add: prepareBuild_def finalizeBuild_def)
qed

text \<open>C8, amended, where the only match is a directory.\<close>

theorem empty_hook_set_witness:
  "locatedAt docsOnlyEnv (cwd docsOnlyEnv)
     (buildLifecyleHandlerGlob (newContext ''/work'' (SpecData.truncate exampleSpec) buildArgv)) = [] \<and>
   snd (expandGlobSync docsOnlyEnv (cwd docsOnlyEnv)
     (buildLifecyleHandlerGlob (newContext ''/work'' (SpecData.truncate exampleSpec) buildArgv))) =
     None \<and>
   prepareBuild docsOnlyEnv (newContext ''/work'' (SpecData.truncate exampleSpec) buildArgv)
     (start []) =
     (Inr (StringArray []),
      emit (ExpandGlob (cwd docsOnlyEnv)
        (buildLifecyleHandlerGlob (newContext ''/work'' (SpecData.truncate exampleSpec) buildArgv)))
        (start [])) \<and>
   finalizeBuild docsOnlyEnv (newContext ''/work'' (SpecData.truncate exampleSpec) buildArgv)
     (start []) =
     (Inr Undefined,
      emit (ExpandGlob (cwd docsOnlyEnv)
        (buildLifecyleHandlerGlob (newContext ''/work'' (SpecData.truncate exampleSpec) buildArgv)))
        (start []))"
proof -
  let ?ctx = "newContext ''/work'' (SpecData.truncate exampleSpec) buildArgv"
  have 1: "locatedAt docsOnlyEnv (cwd docsOnlyEnv) (buildLifecyleHandlerGlob ?ctx) = []"
    by (simp add: locatedAt_def docsOnlyEnv_def exampleEnv_def docsDir_def)
  have 2: "snd (expandGlobSync docsOnlyEnv (cwd docsOnlyEnv) (buildLifecyleHandlerGlob ?ctx)) = None"
    by (simp add: docsOnlyEnv_def exampleEnv_def)
  note T = empty_hook_set [OF 1 2, of "start []"]
  from 1 2 T show ?thesis by blast
qed

section \<open>Hook execution\<close>

text \<open>
  C3. The claim: each hook's default function is awaited before the next step. The code
  calls it without \<open>await\<close>. In a build with one hook that is suspended when its call
  returns, the generation command starts right after the call, the finalize hooks follow,
  and \<open>build\<close> returns with both promises of the hook still pending.
\<close>

theorem build_does_not_await_hooks:
  "build
     (exampleEnv [(''/work'', [docsDir, siteHook])]
        [(''file:///work/site/pubctl-hook-build.ts'', Function asyncHook)] buildArgv)
     (newContext ''/work'' (SpecData.truncate exampleSpec) buildArgv) (start []) =
   (Inr Undefined,
    \<lparr>trace =
       [ExpandGlob ''/work'' (VString ''**/*/pubctl-hook-build.ts''),
        Import ''file:///work/site/pubctl-hook-build.ts'',
        HookCall ''site/pubctl-hook-build.ts'' PREPARE,
        RunShellCommand ''hugox'' False False,
        ExpandGlob ''/work'' (VString ''**/*/pubctl-hook-build.ts''),
        Import ''file:///work/site/pubctl-hook-build.ts'',
        HookCall ''site/pubctl-hook-build.ts'' FINALIZE],
     files = [],
     floating =
       [(''site/pubctl-hook-build.ts'', Pending), (''site/pubctl-hook-build.ts'', Pending)]\<rparr>)"
  by (simp add: method_defs exampleEnv_def exampleSpec_def buildArgv_def asyncHook_def
      SpecData.truncate_def docsDir_def siteHook_def posixRelative_def)

text \<open>
  C4. The claim: an exception inside a hook's default function is caught at the per-hook
  boundary. For an \<open>async\<close> default function the exception is the rejection of the
  promise, which the code drops: the \<open>catch\<close> clause does not run (the hook is reported
  as executed, and neither its name in bright red nor the error is logged) and the rejected
  promise is left unhandled. The names are returned and the next hook runs, as claimed.
\<close>

theorem rejected_hook_is_not_caught:
  "handleProjectBuildHooks
     (exampleEnv [(''/work'', [siteHook, themeHook])]
        [(''file:///work/site/pubctl-hook-build.ts'', Function rejectingHook),
         (''file:///work/theme/pubctl-hook-build.ts'', Function goodHook)] buildArgv)
     (newContext ''/work'' (SpecData.truncate exampleSpec) ((''--verbose'', VBool True) # buildArgv))
     PREPARE (start []) =
   (Inr [''site/pubctl-hook-build.ts'', ''theme/pubctl-hook-build.ts''],
    \<lparr>trace =
       [ExpandGlob ''/work'' (VString ''**/*/pubctl-hook-build.ts''),
        Import ''file:///work/site/pubctl-hook-build.ts'',
        ConsoleLog [Str ''prepare'', Str (yellow ''site/pubctl-hook-build.ts''),
          Str (green ''imported'')],
        HookCall ''site/pubctl-hook-build.ts'' PREPARE,
        ConsoleLog [Str ''prepare'', Str (yellow ''site/pubctl-hook-build.ts''),
          Str (green ''executed'')],
        Import ''file:///work/theme/pubctl-hook-build.ts'',
        ConsoleLog [Str ''prepare'', Str (yellow ''theme/pubctl-hook-build.ts''),
          Str (green ''imported'')],
        HookCall ''theme/pubctl-hook-build.ts'' PREPARE,
        ConsoleLog [Str ''prepare'', Str (yellow ''theme/pubctl-hook-build.ts''),
          Str (green ''executed'')]],
     files = [],
     floating =
       [(''site/pubctl-hook-build.ts'', Rejected (Error ''boom'')),
        (''theme/pubctl-hook-build.ts'', Fulfilled)]\<rparr>)"
  by (simp add: method_defs exampleEnv_def exampleSpec_def buildArgv_def rejectingHook_def
      goodHook_def SpecData.truncate_def themeHook_def siteHook_def posixRelative_def)

text \<open>
  What the \<open>catch\<close> clause does catch: a module that fails to load, and a default
  function that throws before it returns.
\<close>

lemma load_failure_is_caught:
  "toFileUrl E (path we) = Inr url \<Longrightarrow> importModule E url = Inl e \<Longrightarrow>
   hookCaught E ctx step we name w =
     emit (ConsoleLog [ErrObj e]) (emit (ConsoleLog [Str (brightRed name)]) (emit (Import url) w))"
  by (simp add: hookCaught_def tryHook_def Let_def)

lemma synchronous_throw_is_caught:
  "\<not> isDryRun ctx \<Longrightarrow> \<not> isVerbose ctx \<Longrightarrow> toFileUrl E (path we) = Inr url \<Longrightarrow>
   importModule E url = Inr (Function handler) \<Longrightarrow> handler ctx step = Throws e \<Longrightarrow>
   hookCaught E ctx step we name w =
     emit (ConsoleLog [ErrObj e]) (emit (ConsoleLog [Str (brightRed name)])
       (emit (HookCall name step) (emit (Import url) w)))"
  by (simp add: hookCaught_def tryHook_def Let_def)

section \<open>Dry-run\<close>

lemma quiet_tryHook:
  "isDryRun ctx \<Longrightarrow> quiet w (snd (tryHook E ctx step we name w))"
  by (auto simp: tryHook_def Let_def quiet_refl quiet_emit split: sum.splits)

lemma quiet_hookCaught:
  "isDryRun ctx \<Longrightarrow> quiet w (hookCaught E ctx step we name w)"
  using quiet_tryHook [of ctx w E step we name]
  by (auto simp: hookCaught_def quiet_emit split: prod.splits sum.splits)

lemma quiet_hooksLoop:
  "isDryRun ctx \<Longrightarrow> quiet w (snd (hooksLoop E ctx step entries result w))"
proof (induction entries arbitrary: result w)
  case Nil
  then show ?case by (simp add: quiet_refl)
next
  case (Cons we rest)
  show ?case
  proof (cases "isFile we")
    case False
    with Cons show ?thesis by simp
  next
    case True
    show ?thesis
    proof (cases "relative E (projectHome ctx) (path we)")
      case (Inl e)
      with True show ?thesis by (simp add: quiet_refl)
    next
      case (Inr name)
      have "quiet w (hookCaught E ctx step we name w)"
        using Cons.prems by (rule quiet_hookCaught)
      moreover have "quiet (hookCaught E ctx step we name w)
        (snd (hooksLoop E ctx step rest (result @ [name]) (hookCaught E ctx step we name w)))"
        using Cons.prems by (rule Cons.IH)
      ultimately show ?thesis using True Inr by (auto intro: quiet_trans)
    qed
  qed
qed

lemma quiet_handleProjectBuildHooks:
  "isDryRun ctx \<Longrightarrow> quiet w (snd (handleProjectBuildHooks E ctx step w))"
proof -
  assume dry: "isDryRun ctx"
  obtain entries failure where
    eg: "expandGlobSync E (cwd E) (buildLifecyleHandlerGlob ctx) = (entries, failure)"
    by (cases "expandGlobSync E (cwd E) (buildLifecyleHandlerGlob ctx)")
  let ?w1 = "emit (ExpandGlob (cwd E) (buildLifecyleHandlerGlob ctx)) w"
  have "quiet w ?w1" by (simp add: quiet_emit quiet_refl)
  moreover have "quiet ?w1 (snd (hooksLoop E ctx step entries [] ?w1))"
    using dry by (rule quiet_hooksLoop)
  ultimately have "quiet w (snd (hooksLoop E ctx step entries [] ?w1))"
    by (rule quiet_trans)
  then show ?thesis
    by (auto simp: handleProjectBuildHooks_def eg Let_def split: prod.splits sum.splits option.splits)
qed

lemma quiet_getNames:
  "quiet w (snd (getPrepareBuildSubmoduleRelNames E ctx w))"
  by (auto simp: getPrepareBuildSubmoduleRelNames_def Let_def quiet_emit quiet_refl
      split: prod.splits sum.splits option.splits)

lemma quiet_reportShellCmd: "quiet w (snd (reportShellCmd ctx cmd w))"
  by (simp add: reportShellCmd_def quiet_emit quiet_refl)

lemma quiet_awaitShell: "isDryRun ctx \<Longrightarrow> quiet w (snd (awaitShell E ctx cmd w))"
  by (auto simp: awaitShell_def Let_def quiet_emit quiet_refl split: option.splits)

lemma quiet_prepareBuild: "isDryRun ctx \<Longrightarrow> quiet w (snd (prepareBuild E ctx w))"
  using quiet_handleProjectBuildHooks [of ctx w E PREPARE]
  by (auto simp: prepareBuild_def split: prod.splits sum.splits)

lemma quiet_finalizeBuild: "isDryRun ctx \<Longrightarrow> quiet w (snd (finalizeBuild E ctx w))"
  using quiet_handleProjectBuildHooks [of ctx w E FINALIZE]
  by (auto simp: finalizeBuild_def split: prod.splits sum.splits)

lemma quiet_build: "isDryRun ctx \<Longrightarrow> quiet w (snd (build E ctx w))"
proof -
  assume dry: "isDryRun ctx"
  let ?w1 = "snd (prepareBuild E ctx w)"
  let ?w2 = "snd (reportShellCmd ctx ''hugox'' ?w1)"
  let ?w3 = "snd (awaitShell E ctx ''hugox'' ?w2)"
  let ?w4 = "snd (finalizeBuild E ctx ?w3)"
  have 1: "quiet w ?w1" using dry by (rule quiet_prepareBuild)
  have 2: "quiet w ?w2" using 1 quiet_reportShellCmd by (rule quiet_trans)
  have 3: "quiet w ?w3" using 2 quiet_awaitShell [OF dry] by (rule quiet_trans)
  have 4: "quiet w ?w4" using 3 quiet_finalizeBuild [OF dry] by (rule quiet_trans)
  have "snd (build E ctx w) \<in> {?w1, ?w3, ?w4}"
    by (auto simp: build_def reportShellCmd_def split: prod.splits sum.splits)
  with 1 3 4 show ?thesis by auto
qed

lemma cleanEach_ok: "fst (cleanEach E ctx ts w) = Inr ()"
  by (induction ts arbitrary: w)
     (auto simp: Let_def existsSync_def removeSync_def emit_def)

lemma quiet_cleanEach: "isDryRun ctx \<Longrightarrow> quiet w (snd (cleanEach E ctx ts w))"
proof (induction ts arbitrary: w)
  case Nil
  then show ?case by (simp add: quiet_refl)
next
  case (Cons t ts)
  let ?w1 = "emit (ExistsSync (resolvePath (cwd E) t)) w"
  let ?w2 = "emit (ConsoleLog [Str ''delete'', Str (red t)]) ?w1"
  have 1: "quiet w ?w1" by (simp add: quiet_emit quiet_refl)
  have 2: "quiet w ?w2" using 1 by (simp add: quiet_emit)
  show ?case
  proof (cases "existsSync E t ?w1")
    case True
    have "quiet ?w2 (snd (cleanEach E ctx ts ?w2))" using Cons.prems by (rule Cons.IH)
    with 2 have "quiet w (snd (cleanEach E ctx ts ?w2))" by (rule quiet_trans)
    with True Cons.prems show ?thesis by (simp add: Let_def)
  next
    case False
    have "quiet ?w1 (snd (cleanEach E ctx ts ?w1))" using Cons.prems by (rule Cons.IH)
    with 1 have "quiet w (snd (cleanEach E ctx ts ?w1))" by (rule quiet_trans)
    with False show ?thesis by (simp add: Let_def)
  qed
qed

lemma quiet_clean: "isDryRun ctx \<Longrightarrow> quiet w (snd (clean E ctx w))"
proof -
  assume dry: "isDryRun ctx"
  let ?c = "''hugox mod clean --all''"
  let ?w1 = "snd (reportShellCmd ctx ?c w)"
  let ?w2 = "snd (awaitShell E ctx ?c ?w1)"
  let ?w3 = "snd (cleanEach E ctx [''go.sum'', ''public'', ''resources''] ?w2)"
  have 1: "quiet w ?w1" by (rule quiet_reportShellCmd)
  have 2: "quiet w ?w2" using 1 quiet_awaitShell [OF dry] by (rule quiet_trans)
  have 3: "quiet w ?w3" using 2 quiet_cleanEach [OF dry] by (rule quiet_trans)
  have "snd (clean E ctx w) \<in> {?w2, ?w3}"
    by (auto simp: clean_def reportShellCmd_def split: prod.splits sum.splits)
  with 2 3 show ?thesis by auto
qed

lemma quiet_update: "isDryRun ctx \<Longrightarrow> quiet w (snd (update E ctx w))"
proof -
  assume dry: "isDryRun ctx"
  let ?w1 = "snd (getPrepareBuildSubmoduleRelNames E ctx w)"
  have 1: "quiet w ?w1" by (rule quiet_getNames)
  show ?thesis
  proof (cases "fst (getPrepareBuildSubmoduleRelNames E ctx w)")
    case (Inl e)
    with 1 show ?thesis by (auto simp: update_def split: prod.splits)
  next
    case (Inr names)
    let ?c = "''udd pubctl.ts '' @ join '' '' names"
    let ?w2 = "snd (reportShellCmd ctx ?c ?w1)"
    let ?w3 = "snd (awaitShell E ctx ?c ?w2)"
    have 2: "quiet w ?w2" using 1 quiet_reportShellCmd by (rule quiet_trans)
    have 3: "quiet w ?w3" using 2 quiet_awaitShell [OF dry] by (rule quiet_trans)
    have "snd (update E ctx w) = ?w3"
      using Inr by (auto simp: update_def reportShellCmd_def split: prod.splits sum.splits)
    with 3 show ?thesis by simp
  qed
qed

lemma loadReported_mono:
  "loadReported E step url name evs \<Longrightarrow> set evs \<subseteq> set evs' \<Longrightarrow> loadReported E step url name evs'"
  by (auto simp: loadReported_def split: sum.splits)

lemma hookCaught_reports:
  "isDryRun ctx \<Longrightarrow> toFileUrl E (path we) = Inr url \<Longrightarrow>
   loadReported E step url name (trace (hookCaught E ctx step we name w))"
  by (auto simp: hookCaught_def tryHook_def loadReported_def emit_def Let_def split: sum.splits)

lemma hooksLoop_reports:
  "isDryRun ctx \<Longrightarrow> fst (hooksLoop E ctx step entries result w) = Inr names \<Longrightarrow>
   we \<in> set entries \<Longrightarrow> isFile we \<Longrightarrow>
   relative E (projectHome ctx) (path we) = Inr name \<Longrightarrow> toFileUrl E (path we) = Inr url \<Longrightarrow>
   loadReported E step url name (trace (snd (hooksLoop E ctx step entries result w)))"
proof (induction entries arbitrary: result w)
  case Nil
  then show ?case by simp
next
  case (Cons x rest)
  show ?case
  proof (cases "isFile x")
    case False
    with Cons.prems have "we \<in> set rest" by auto
    with Cons False show ?thesis by simp
  next
    case True
    from Cons.prems(2) True obtain n where n: "relative E (projectHome ctx) (path x) = Inr n"
      by (cases "relative E (projectHome ctx) (path x)") auto
    let ?w1 = "hookCaught E ctx step x n w"
    have step: "hooksLoop E ctx step (x # rest) result w = hooksLoop E ctx step rest (result @ [n]) ?w1"
      using True n by simp
    show ?thesis
    proof (cases "we = x")
      case True
      with n Cons.prems have "n = name" by simp
      then have "loadReported E step url name (trace ?w1)"
        using hookCaught_reports [OF Cons.prems(1)] Cons.prems(6) \<open>we = x\<close> by blast
      moreover have "set (trace ?w1) \<subseteq> set (trace (snd (hooksLoop E ctx step rest (result @ [n]) ?w1)))"
        using quiet_hooksLoop [OF Cons.prems(1)] by (rule quiet_trace_mono)
      ultimately show ?thesis unfolding step by (rule loadReported_mono)
    next
      case False
      with Cons.prems have "we \<in> set rest" by simp
      then show ?thesis
        unfolding step using Cons.IH [of "result @ [n]" ?w1] Cons.prems step by simp
    qed
  qed
qed

lemma handleProjectBuildHooks_reports:
  assumes "isDryRun ctx"
    and "fst (handleProjectBuildHooks E ctx step w) = Inr names"
    and "we \<in> set (fst (expandGlobSync E (cwd E) (buildLifecyleHandlerGlob ctx)))"
    and "isFile we"
    and "relative E (projectHome ctx) (path we) = Inr name"
    and "toFileUrl E (path we) = Inr url"
  shows "loadReported E step url name (trace (snd (handleProjectBuildHooks E ctx step w)))"
proof -
  obtain entries failure where
    eg: "expandGlobSync E (cwd E) (buildLifecyleHandlerGlob ctx) = (entries, failure)"
    by (cases "expandGlobSync E (cwd E) (buildLifecyleHandlerGlob ctx)")
  let ?w1 = "emit (ExpandGlob (cwd E) (buildLifecyleHandlerGlob ctx)) w"
  obtain r w2 where loop: "hooksLoop E ctx step entries [] ?w1 = (r, w2)"
    by (cases "hooksLoop E ctx step entries [] ?w1")
  from assms(2) obtain ns where r: "r = Inr ns"
    by (cases r) (auto simp: handleProjectBuildHooks_def eg loop Let_def split: option.splits)
  have w2: "snd (handleProjectBuildHooks E ctx step w) = w2"
    by (auto simp: handleProjectBuildHooks_def eg loop r Let_def split: option.splits)
  have "loadReported E step url name (trace (snd (hooksLoop E ctx step entries [] ?w1)))"
    using assms(1) _ _ assms(4,5,6)
  proof (rule hooksLoop_reports)
    show "fst (hooksLoop E ctx step entries [] ?w1) = Inr ns" by (simp add: loop r)
    show "we \<in> set entries" using assms(3) by (simp add: eg)
  qed
  then show ?thesis by (simp add: w2 loop)
qed

lemma cleanEach_logs:
  "isDryRun ctx \<Longrightarrow> t \<in> set ts \<Longrightarrow> resolvePath (cwd E) t \<in> set (files w) \<Longrightarrow>
   ConsoleLog [Str ''delete'', Str (red t)] \<in> set (trace (snd (cleanEach E ctx ts w)))"
proof (induction ts arbitrary: w)
  case Nil
  then show ?case by simp
next
  case (Cons x rest)
  let ?w1 = "emit (ExistsSync (resolvePath (cwd E) x)) w"
  let ?w2 = "emit (ConsoleLog [Str ''delete'', Str (red x)]) ?w1"
  show ?case
  proof (cases "t = x")
    case True
    have ex: "existsSync E x ?w1" using Cons.prems True by (simp add: existsSync_def emit_def)
    have "ConsoleLog [Str ''delete'', Str (red x)] \<in> set (trace ?w2)" by (simp add: emit_def)
    moreover have "set (trace ?w2) \<subseteq> set (trace (snd (cleanEach E ctx rest ?w2)))"
      using quiet_cleanEach [OF Cons.prems(1)] by (rule quiet_trace_mono)
    ultimately show ?thesis using ex Cons.prems(1) True by (auto simp: Let_def)
  next
    case False
    with Cons.prems have t: "t \<in> set rest" by simp
    have f1: "resolvePath (cwd E) t \<in> set (files ?w1)" using Cons.prems by (simp add: emit_def)
    have f2: "resolvePath (cwd E) t \<in> set (files ?w2)" using Cons.prems by (simp add: emit_def)
    show ?thesis
      using Cons.IH [OF Cons.prems(1) t f1] Cons.IH [OF Cons.prems(1) t f2] Cons.prems(1)
      by (simp add: Let_def)
  qed
qed

lemma clean_logs:
  assumes "isDryRun ctx"
    and "runShellCommand E ''hugox mod clean --all'' (isVerbose ctx) (isDryRun ctx) = None"
    and "t \<in> set [''go.sum'', ''public'', ''resources'']"
    and "resolvePath (cwd E) t \<in> set (files w)"
  shows "ConsoleLog [Str ''delete'', Str (red t)] \<in> set (trace (snd (clean E ctx w)))"
proof -
  let ?w2 = "emit (RunShellCommand ''hugox mod clean --all'' (isVerbose ctx) (isDryRun ctx)) w"
  have f: "resolvePath (cwd E) t \<in> set (files ?w2)" using assms(4) by (simp add: emit_def)
  have "snd (clean E ctx w) = snd (cleanEach E ctx [''go.sum'', ''public'', ''resources''] ?w2)"
    using assms(1,2)
    by (auto simp: clean_def reportShellCmd_def awaitShell_def Let_def split: prod.splits sum.splits)
  then show ?thesis using cleanEach_logs [OF assms(1) assms(3) f] by simp
qed

lemma handleProjectBuildHooks_names:
  assumes "snd (expandGlobSync E (cwd E) (buildLifecyleHandlerGlob ctx)) = None"
    and "list_all (\<lambda>p. relative E (projectHome ctx) p = Inr (rel p))
           (locatedAt E (cwd E) (buildLifecyleHandlerGlob ctx))"
  shows "fst (handleProjectBuildHooks E ctx step w) =
           Inr (map rel (locatedAt E (cwd E) (buildLifecyleHandlerGlob ctx)))"
proof -
  obtain entries where
    eg: "expandGlobSync E (cwd E) (buildLifecyleHandlerGlob ctx) = (entries, None)"
    using assms(1) by (cases "expandGlobSync E (cwd E) (buildLifecyleHandlerGlob ctx)") auto
  let ?w1 = "emit (ExpandGlob (cwd E) (buildLifecyleHandlerGlob ctx)) w"
  have rel: "list_all (\<lambda>p. relative E (projectHome ctx) p = Inr (rel p))
               (map path (filter isFile entries))"
    using assms(2) by (simp add: locatedAt_def eg)
  obtain r w2 where loop: "hooksLoop E ctx step entries [] ?w1 = (r, w2)"
    by (cases "hooksLoop E ctx step entries [] ?w1")
  have "r = Inr (map rel (map path (filter isFile entries)))"
    using hooksLoop_names [OF rel, where step = step and result = "[]" and w = ?w1]
    by (simp add: loop)
  then show ?thesis
    by (simp add: handleProjectBuildHooks_def eg loop locatedAt_def)
qed

lemma handleProjectBuildHooks_imports:
  assumes "snd (expandGlobSync E (cwd E) (buildLifecyleHandlerGlob ctx)) = None"
    and "list_all (\<lambda>p. relative E (projectHome ctx) p = Inr (rel p))
           (locatedAt E (cwd E) (buildLifecyleHandlerGlob ctx))"
    and "list_all (\<lambda>p. toFileUrl E p = Inr (url p))
           (locatedAt E (cwd E) (buildLifecyleHandlerGlob ctx))"
  shows "importedUrls (trace (snd (handleProjectBuildHooks E ctx step w))) =
           importedUrls (trace w) @ map url (locatedAt E (cwd E) (buildLifecyleHandlerGlob ctx))"
proof -
  obtain entries where
    eg: "expandGlobSync E (cwd E) (buildLifecyleHandlerGlob ctx) = (entries, None)"
    using assms(1) by (cases "expandGlobSync E (cwd E) (buildLifecyleHandlerGlob ctx)") auto
  let ?w1 = "emit (ExpandGlob (cwd E) (buildLifecyleHandlerGlob ctx)) w"
  have rel: "list_all (\<lambda>p. relative E (projectHome ctx) p = Inr (rel p))
               (map path (filter isFile entries))"
    using assms(2) by (simp add: locatedAt_def eg)
  have url: "list_all (\<lambda>p. toFileUrl E p = Inr (url p)) (map path (filter isFile entries))"
    using assms(3) by (simp add: locatedAt_def eg)
  obtain r w2 where loop: "hooksLoop E ctx step entries [] ?w1 = (r, w2)"
    by (cases "hooksLoop E ctx step entries [] ?w1")
  have r: "r = Inr (map rel (map path (filter isFile entries)))"
    using hooksLoop_names [OF rel, where step = step and result = "[]" and w = ?w1]
    by (simp add: loop)
  have "importedUrls (trace w2) =
      importedUrls (trace ?w1) @ map url (map path (filter isFile entries))"
    using hooksLoop_imports [OF rel url, where step = step and result = "[]" and w = ?w1]
    by (simp add: loop)
  then have "importedUrls (trace w2) =
      importedUrls (trace w) @ map url (map path (filter isFile entries))"
    by (simp add: emit_def importedUrls_append)
  then show ?thesis
    by (simp add: handleProjectBuildHooks_def eg loop r locatedAt_def)
qed

lemma handleProjectBuildHooks_reports_located:
  assumes "isDryRun ctx"
    and "snd (expandGlobSync E (cwd E) (buildLifecyleHandlerGlob ctx)) = None"
    and "list_all (\<lambda>p. relative E (projectHome ctx) p = Inr (rel p))
           (locatedAt E (cwd E) (buildLifecyleHandlerGlob ctx))"
    and "list_all (\<lambda>p. toFileUrl E p = Inr (url p))
           (locatedAt E (cwd E) (buildLifecyleHandlerGlob ctx))"
    and "p \<in> set (locatedAt E (cwd E) (buildLifecyleHandlerGlob ctx))"
  shows "loadReported E step (url p) (rel p) (trace (snd (handleProjectBuildHooks E ctx step w)))"
proof -
  from assms(5) obtain we where
    we: "we \<in> set (fst (expandGlobSync E (cwd E) (buildLifecyleHandlerGlob ctx)))"
      "isFile we" "path we = p"
    by (auto simp: locatedAt_def)
  have r: "relative E (projectHome ctx) (path we) = Inr (rel p)"
    using assms(3,5) we(3) by (simp add: list_all_iff)
  have u: "toFileUrl E (path we) = Inr (url p)"
    using assms(4,5) we(3) by (simp add: list_all_iff)
  show ?thesis
    using assms(1) handleProjectBuildHooks_names [OF assms(2,3)] we(1,2) r u
    by (rule handleProjectBuildHooks_reports)
qed

lemma build_dry_run:
  assumes "isDryRun ctx"
    and "snd (expandGlobSync E (cwd E) (buildLifecyleHandlerGlob ctx)) = None"
    and "list_all (\<lambda>p. relative E (projectHome ctx) p = Inr (rel p))
           (locatedAt E (cwd E) (buildLifecyleHandlerGlob ctx))"
    and "runShellCommand E ''hugox'' (isVerbose ctx) (isDryRun ctx) = None"
  shows "build E ctx w =
     (Inr Undefined,
      snd (handleProjectBuildHooks E ctx FINALIZE
        (emit (RunShellCommand ''hugox'' (isVerbose ctx) True)
           (snd (handleProjectBuildHooks E ctx PREPARE w)))))"
proof -
  let ?names = "map rel (locatedAt E (cwd E) (buildLifecyleHandlerGlob ctx))"
  obtain w1 where p: "handleProjectBuildHooks E ctx PREPARE w = (Inr ?names, w1)"
    using handleProjectBuildHooks_names [OF assms(2,3), of PREPARE w]
    by (cases "handleProjectBuildHooks E ctx PREPARE w") simp
  let ?w3 = "emit (RunShellCommand ''hugox'' (isVerbose ctx) True) w1"
  obtain w4 where f: "handleProjectBuildHooks E ctx FINALIZE ?w3 = (Inr ?names, w4)"
    using handleProjectBuildHooks_names [OF assms(2,3), of FINALIZE ?w3]
    by (cases "handleProjectBuildHooks E ctx FINALIZE ?w3") simp
  show ?thesis
    using assms(1,4)
    by (simp add: build_def prepareBuild_def finalizeBuild_def reportShellCmd_def
        awaitShell_def Let_def p f)
qed

lemma update_dry_run:
  assumes "isDryRun ctx"
    and "snd (expandGlobSync E (cwd E) (buildLifecyleHandlerGlob ctx)) = None"
    and "list_all (\<lambda>p. relative E (projectHome ctx) p = Inr (rel p))
           (locatedAt E (cwd E) (buildLifecyleHandlerGlob ctx))"
  shows "snd (update E ctx w) =
     emit (RunShellCommand
        (''udd pubctl.ts '' @
           join '' '' (map rel (locatedAt E (cwd E) (buildLifecyleHandlerGlob ctx))))
        (isVerbose ctx) True)
       (emit (ExpandGlob (cwd E) (buildLifecyleHandlerGlob ctx)) w)"
proof -
  obtain entries where
    eg: "expandGlobSync E (cwd E) (buildLifecyleHandlerGlob ctx) = (entries, None)"
    using assms(2) by (cases "expandGlobSync E (cwd E) (buildLifecyleHandlerGlob ctx)") auto
  have rel: "list_all (\<lambda>p. relative E (projectHome ctx) p = Inr (rel p))
               (map path (filter isFile entries))"
    using assms(3) by (simp add: locatedAt_def eg)
  have g: "getPrepareBuildSubmoduleRelNames E ctx w =
      (Inr (map rel (locatedAt E (cwd E) (buildLifecyleHandlerGlob ctx))),
       emit (ExpandGlob (cwd E) (buildLifecyleHandlerGlob ctx)) w)"
    using relNamesLoop_names [OF rel, where result = "[]"]
    by (simp add: getPrepareBuildSubmoduleRelNames_def eg locatedAt_def)
  show ?thesis
    using assms(1)
    by (simp add: update_def g reportShellCmd_def awaitShell_def Let_def split: option.splits)
qed

lemma clean_calls_runner:
  assumes "isDryRun ctx"
  shows "RunShellCommand ''hugox mod clean --all'' (isVerbose ctx) True \<in>
           set (trace (snd (clean E ctx w)))"
proof -
  let ?w2 = "emit (RunShellCommand ''hugox mod clean --all'' (isVerbose ctx) True) w"
  have in2: "RunShellCommand ''hugox mod clean --all'' (isVerbose ctx) True \<in> set (trace ?w2)"
    by (simp add: emit_def)
  have "set (trace ?w2) \<subseteq>
      set (trace (snd (cleanEach E ctx [''go.sum'', ''public'', ''resources''] ?w2)))"
    using quiet_cleanEach [OF assms] by (rule quiet_trace_mono)
  with in2 have in3: "RunShellCommand ''hugox mod clean --all'' (isVerbose ctx) True \<in>
      set (trace (snd (cleanEach E ctx [''go.sum'', ''public'', ''resources''] ?w2)))"
    by blast
  show ?thesis
  proof (cases "runShellCommand E ''hugox mod clean --all'' (isVerbose ctx) True")
    case None
    obtain w3 where ce:
      "cleanEach E ctx [''go.sum'', ''public'', ''resources''] ?w2 = (Inr (), w3)"
      using cleanEach_ok [of E ctx "[''go.sum'', ''public'', ''resources'']" ?w2]
      by (cases "cleanEach E ctx [''go.sum'', ''public'', ''resources''] ?w2") auto
    from assms None have "snd (clean E ctx w) = w3"
      by (simp add: clean_def reportShellCmd_def awaitShell_def Let_def ce del: cleanEach.simps)
    with in3 ce show ?thesis by (simp del: cleanEach.simps)
  next
    case (Some e)
    with assms have "snd (clean E ctx w) = ?w2"
      by (simp add: clean_def reportShellCmd_def awaitShell_def Let_def)
    with in2 show ?thesis by simp
  qed
qed

text \<open>
  C5. On a context with \<open>isDryRun\<close> set, each of the five lifecycle methods leaves the
  filesystem as it is, calls no default function of a hook, leaves no promise behind and
  calls the shell runner with \<open>dryRun\<close> set only. The work is still attempted and
  reported. The hook executor imports each hook file it handles and reports the outcome.
  \<open>clean\<close> hands its command to the shell runner and logs the deletion of each target that
  exists. When the expansion does not fail and \<open>path.relative\<close> accepts the paths,
  \<open>prepareBuild\<close> and \<open>finalizeBuild\<close> succeed, \<open>update\<close> hands the runner its command
  with the names of the hooks, and \<open>build\<close> succeeds when the runner does and hands it the
  generation command; \<open>prepareBuild\<close> and \<open>finalizeBuild\<close> import every hook file once, in
  order, \<open>build\<close> imports every one twice (for the prepare and for the finalize step), and
  each import is reported under its step.
\<close>

theorem dry_run_effect_free:
  assumes "isDryRun ctx"
  shows "quiet w (snd (prepareBuild E ctx w)) \<and>
         quiet w (snd (build E ctx w)) \<and>
         quiet w (snd (finalizeBuild E ctx w)) \<and>
         quiet w (snd (clean E ctx w)) \<and>
         quiet w (snd (update E ctx w)) \<and>
         (fst (handleProjectBuildHooks E ctx step w) = Inr names \<longrightarrow>
          we \<in> set (fst (expandGlobSync E (cwd E) (buildLifecyleHandlerGlob ctx))) \<longrightarrow>
          isFile we \<longrightarrow>
          relative E (projectHome ctx) (path we) = Inr name \<longrightarrow>
          toFileUrl E (path we) = Inr url \<longrightarrow>
          loadReported E step url name (trace (snd (handleProjectBuildHooks E ctx step w)))) \<and>
         (runShellCommand E ''hugox mod clean --all'' (isVerbose ctx) (isDryRun ctx) = None \<longrightarrow>
          t \<in> set [''go.sum'', ''public'', ''resources''] \<longrightarrow>
          resolvePath (cwd E) t \<in> set (files w) \<longrightarrow>
          ConsoleLog [Str ''delete'', Str (red t)] \<in> set (trace (snd (clean E ctx w)))) \<and>
         RunShellCommand ''hugox mod clean --all'' (isVerbose ctx) True \<in>
           set (trace (snd (clean E ctx w))) \<and>
         (snd (expandGlobSync E (cwd E) (buildLifecyleHandlerGlob ctx)) = None \<longrightarrow>
          list_all (\<lambda>p. relative E (projectHome ctx) p = Inr (rel p))
            (locatedAt E (cwd E) (buildLifecyleHandlerGlob ctx)) \<longrightarrow>
            fst (prepareBuild E ctx w) =
              Inr (StringArray (map rel (locatedAt E (cwd E) (buildLifecyleHandlerGlob ctx)))) \<and>
            fst (finalizeBuild E ctx w) = Inr Undefined \<and>
            snd (update E ctx w) =
              emit (RunShellCommand
                 (''udd pubctl.ts '' @
                    join '' '' (map rel (locatedAt E (cwd E) (buildLifecyleHandlerGlob ctx))))
                 (isVerbose ctx) True)
                (emit (ExpandGlob (cwd E) (buildLifecyleHandlerGlob ctx)) w) \<and>
            (runShellCommand E ''hugox'' (isVerbose ctx) (isDryRun ctx) = None \<longrightarrow>
               fst (build E ctx w) = Inr Undefined \<and>
               RunShellCommand ''hugox'' (isVerbose ctx) True \<in>
                 set (trace (snd (build E ctx w)))) \<and>
            (list_all (\<lambda>p. toFileUrl E p = Inr (urlOf p))
               (locatedAt E (cwd E) (buildLifecyleHandlerGlob ctx)) \<longrightarrow>
               importedUrls (trace (snd (prepareBuild E ctx w))) =
                 importedUrls (trace w) @
                 map urlOf (locatedAt E (cwd E) (buildLifecyleHandlerGlob ctx)) \<and>
               importedUrls (trace (snd (finalizeBuild E ctx w))) =
                 importedUrls (trace w) @
                 map urlOf (locatedAt E (cwd E) (buildLifecyleHandlerGlob ctx)) \<and>
               (p \<in> set (locatedAt E (cwd E) (buildLifecyleHandlerGlob ctx)) \<longrightarrow>
                  loadReported E PREPARE (urlOf p) (rel p) (trace (snd (prepareBuild E ctx w))) \<and>
                  loadReported E FINALIZE (urlOf p) (rel p)
                    (trace (snd (finalizeBuild E ctx w)))) \<and>
               (runShellCommand E ''hugox'' (isVerbose ctx) (isDryRun ctx) = None \<longrightarrow>
                  importedUrls (trace (snd (build E ctx w))) =
                    importedUrls (trace w) @
                    map urlOf (locatedAt E (cwd E) (buildLifecyleHandlerGlob ctx)) @
                    map urlOf (locatedAt E (cwd E) (buildLifecyleHandlerGlob ctx)) \<and>
                  (p \<in> set (locatedAt E (cwd E) (buildLifecyleHandlerGlob ctx)) \<longrightarrow>
                     loadReported E PREPARE (urlOf p) (rel p) (trace (snd (build E ctx w))) \<and>
                     loadReported E FINALIZE (urlOf p) (rel p) (trace (snd (build E ctx w)))))))"
proof -
  let ?glob = "buildLifecyleHandlerGlob ctx"
  let ?loc = "locatedAt E (cwd E) ?glob"
  have effect_free:
    "quiet w (snd (prepareBuild E ctx w)) \<and> quiet w (snd (build E ctx w)) \<and>
     quiet w (snd (finalizeBuild E ctx w)) \<and> quiet w (snd (clean E ctx w)) \<and>
     quiet w (snd (update E ctx w))"
    using assms
    by (intro conjI quiet_prepareBuild quiet_build quiet_finalizeBuild quiet_clean quiet_update)
  have executor:
    "fst (handleProjectBuildHooks E ctx step w) = Inr names \<longrightarrow>
     we \<in> set (fst (expandGlobSync E (cwd E) ?glob)) \<longrightarrow> isFile we \<longrightarrow>
     relative E (projectHome ctx) (path we) = Inr name \<longrightarrow>
     toFileUrl E (path we) = Inr url \<longrightarrow>
     loadReported E step url name (trace (snd (handleProjectBuildHooks E ctx step w)))"
    using assms by (intro impI handleProjectBuildHooks_reports)
  have deletions:
    "runShellCommand E ''hugox mod clean --all'' (isVerbose ctx) (isDryRun ctx) = None \<longrightarrow>
     t \<in> set [''go.sum'', ''public'', ''resources''] \<longrightarrow>
     resolvePath (cwd E) t \<in> set (files w) \<longrightarrow>
     ConsoleLog [Str ''delete'', Str (red t)] \<in> set (trace (snd (clean E ctx w)))"
    using assms by (intro impI clean_logs)
  have runner: "RunShellCommand ''hugox mod clean --all'' (isVerbose ctx) True \<in>
      set (trace (snd (clean E ctx w)))"
    using assms by (rule clean_calls_runner)
  have snd_prepare: "snd (prepareBuild E ctx v) = snd (handleProjectBuildHooks E ctx PREPARE v)"
    for v
    by (simp add: prepareBuild_def split: prod.splits sum.splits)
  have snd_finalize: "snd (finalizeBuild E ctx v) = snd (handleProjectBuildHooks E ctx FINALIZE v)"
    for v
    by (simp add: finalizeBuild_def split: prod.splits sum.splits)
  {
    assume ok: "snd (expandGlobSync E (cwd E) ?glob) = None"
      and rel: "list_all (\<lambda>p. relative E (projectHome ctx) p = Inr (rel p)) ?loc"
    note names = handleProjectBuildHooks_names [OF ok rel]
    have a: "fst (prepareBuild E ctx w) = Inr (StringArray (map rel ?loc))"
      using names [of PREPARE w]
      by (cases "handleProjectBuildHooks E ctx PREPARE w") (simp add: prepareBuild_def)
    have b: "fst (finalizeBuild E ctx w) = Inr Undefined"
      using names [of FINALIZE w]
      by (cases "handleProjectBuildHooks E ctx FINALIZE w") (simp add: finalizeBuild_def)
    note c = update_dry_run [OF assms ok rel, of w]
    let ?w1 = "snd (handleProjectBuildHooks E ctx PREPARE w)"
    let ?w3 = "emit (RunShellCommand ''hugox'' (isVerbose ctx) True) ?w1"
    let ?w4 = "snd (handleProjectBuildHooks E ctx FINALIZE ?w3)"
    have mono13: "set (trace ?w1) \<subseteq> set (trace ?w3)" by (auto simp: emit_def)
    have mono34: "set (trace ?w3) \<subseteq> set (trace ?w4)"
      using quiet_handleProjectBuildHooks [OF assms] by (rule quiet_trace_mono)
    {
      assume sh: "runShellCommand E ''hugox'' (isVerbose ctx) (isDryRun ctx) = None"
      note bd = build_dry_run [OF assms ok rel sh, of w]
      have "RunShellCommand ''hugox'' (isVerbose ctx) True \<in> set (trace ?w3)"
        by (simp add: emit_def)
      with mono34 have "fst (build E ctx w) = Inr Undefined \<and>
          RunShellCommand ''hugox'' (isVerbose ctx) True \<in> set (trace (snd (build E ctx w)))"
        by (auto simp: bd)
    }
    note d = this
    {
      assume urls: "list_all (\<lambda>p. toFileUrl E p = Inr (urlOf p)) ?loc"
      note imps = handleProjectBuildHooks_imports [OF ok rel urls]
      note reports = handleProjectBuildHooks_reports_located [OF assms ok rel urls]
      have e: "importedUrls (trace (snd (prepareBuild E ctx w))) =
          importedUrls (trace w) @ map urlOf ?loc"
        by (simp add: snd_prepare imps)
      have f: "importedUrls (trace (snd (finalizeBuild E ctx w))) =
          importedUrls (trace w) @ map urlOf ?loc"
        by (simp add: snd_finalize imps)
      have g: "loadReported E PREPARE (urlOf p) (rel p) (trace (snd (prepareBuild E ctx w))) \<and>
          loadReported E FINALIZE (urlOf p) (rel p) (trace (snd (finalizeBuild E ctx w)))"
        if "p \<in> set ?loc"
        using reports [OF that] by (simp add: snd_prepare snd_finalize)
      {
        assume sh: "runShellCommand E ''hugox'' (isVerbose ctx) (isDryRun ctx) = None"
        note bd = build_dry_run [OF assms ok rel sh, of w]
        have i3: "importedUrls (trace ?w3) = importedUrls (trace w) @ map urlOf ?loc"
          by (simp add: emit_def importedUrls_append imps)
        have h1: "importedUrls (trace (snd (build E ctx w))) =
            importedUrls (trace w) @ map urlOf ?loc @ map urlOf ?loc"
          by (simp add: bd imps [of FINALIZE ?w3] i3)
        have h2: "loadReported E PREPARE (urlOf p) (rel p) (trace (snd (build E ctx w))) \<and>
            loadReported E FINALIZE (urlOf p) (rel p) (trace (snd (build E ctx w)))"
          if "p \<in> set ?loc"
        proof
          have "loadReported E PREPARE (urlOf p) (rel p) (trace ?w1)"
            using reports [OF that] .
          moreover have "set (trace ?w1) \<subseteq> set (trace ?w4)"
            using mono13 mono34 by blast
          ultimately show "loadReported E PREPARE (urlOf p) (rel p) (trace (snd (build E ctx w)))"
            unfolding bd snd_conv by (rule loadReported_mono)
          show "loadReported E FINALIZE (urlOf p) (rel p) (trace (snd (build E ctx w)))"
            unfolding bd snd_conv using reports [OF that] .
        qed
        note h1 h2
      }
      note h = this
      note e f g h
    }
    note rest = this
    note a b c d rest
  }
  note located = this
  show ?thesis
    using effect_free executor deletions runner located by blast
qed

text \<open>
  C5, at \<open>pubctl build --dry-run\<close> in a built project with one hook.
\<close>

theorem dry_run_effect_free_witness:
  "isDryRun dryContext \<and>
   quiet builtSite (snd (prepareBuild siteEnv dryContext builtSite)) \<and>
   quiet builtSite (snd (build siteEnv dryContext builtSite)) \<and>
   quiet builtSite (snd (finalizeBuild siteEnv dryContext builtSite)) \<and>
   quiet builtSite (snd (clean siteEnv dryContext builtSite)) \<and>
   quiet builtSite (snd (update siteEnv dryContext builtSite)) \<and>
   fst (handleProjectBuildHooks siteEnv dryContext PREPARE builtSite) =
     Inr [''site/pubctl-hook-build.ts''] \<and>
   siteHook \<in> set (fst (expandGlobSync siteEnv (cwd siteEnv)
     (buildLifecyleHandlerGlob dryContext))) \<and>
   isFile siteHook \<and>
   relative siteEnv (projectHome dryContext) (path siteHook) = Inr ''site/pubctl-hook-build.ts'' \<and>
   toFileUrl siteEnv (path siteHook) = Inr ''file:///work/site/pubctl-hook-build.ts'' \<and>
   loadReported siteEnv PREPARE ''file:///work/site/pubctl-hook-build.ts''
     ''site/pubctl-hook-build.ts''
     (trace (snd (handleProjectBuildHooks siteEnv dryContext PREPARE builtSite))) \<and>
   runShellCommand siteEnv ''hugox mod clean --all'' (isVerbose dryContext) (isDryRun dryContext) =
     None \<and>
   ''public'' \<in> set [''go.sum'', ''public'', ''resources''] \<and>
   resolvePath (cwd siteEnv) ''public'' \<in> set (files builtSite) \<and>
   ConsoleLog [Str ''delete'', Str (red ''public'')] \<in>
     set (trace (snd (clean siteEnv dryContext builtSite))) \<and>
   RunShellCommand ''hugox mod clean --all'' (isVerbose dryContext) True \<in>
     set (trace (snd (clean siteEnv dryContext builtSite))) \<and>
   snd (expandGlobSync siteEnv (cwd siteEnv) (buildLifecyleHandlerGlob dryContext)) = None \<and>
   list_all (\<lambda>p. relative siteEnv (projectHome dryContext) p = Inr (posixRelative ''/work'' p))
     (locatedAt siteEnv (cwd siteEnv) (buildLifecyleHandlerGlob dryContext)) \<and>
   list_all (\<lambda>p. toFileUrl siteEnv p = Inr (fileUrl p))
     (locatedAt siteEnv (cwd siteEnv) (buildLifecyleHandlerGlob dryContext)) \<and>
   runShellCommand siteEnv ''hugox'' (isVerbose dryContext) (isDryRun dryContext) = None \<and>
   ''/work/site/pubctl-hook-build.ts'' \<in>
     set (locatedAt siteEnv (cwd siteEnv) (buildLifecyleHandlerGlob dryContext)) \<and>
   fst (prepareBuild siteEnv dryContext builtSite) =
     Inr (StringArray (map (posixRelative ''/work'')
       (locatedAt siteEnv (cwd siteEnv) (buildLifecyleHandlerGlob dryContext)))) \<and>
   fst (finalizeBuild siteEnv dryContext builtSite) = Inr Undefined \<and>
   snd (update siteEnv dryContext builtSite) =
     emit (RunShellCommand
        (''udd pubctl.ts '' @
           join '' '' (map (posixRelative ''/work'')
             (locatedAt siteEnv (cwd siteEnv) (buildLifecyleHandlerGlob dryContext))))
        (isVerbose dryContext) True)
       (emit (ExpandGlob (cwd siteEnv) (buildLifecyleHandlerGlob dryContext)) builtSite) \<and>
   fst (build siteEnv dryContext builtSite) = Inr Undefined \<and>
   RunShellCommand ''hugox'' (isVerbose dryContext) True \<in>
     set (trace (snd (build siteEnv dryContext builtSite))) \<and>
   importedUrls (trace (snd (prepareBuild siteEnv dryContext builtSite))) =
     importedUrls (trace builtSite) @
     map fileUrl (locatedAt siteEnv (cwd siteEnv) (buildLifecyleHandlerGlob dryContext)) \<and>
   importedUrls (trace (snd (finalizeBuild siteEnv dryContext builtSite))) =
     importedUrls (trace builtSite) @
     map fileUrl (locatedAt siteEnv (cwd siteEnv) (buildLifecyleHandlerGlob dryContext)) \<and>
   loadReported siteEnv PREPARE (fileUrl ''/work/site/pubctl-hook-build.ts'')
     (posixRelative ''/work'' ''/work/site/pubctl-hook-build.ts'')
     (trace (snd (prepareBuild siteEnv dryContext builtSite))) \<and>
   loadReported siteEnv FINALIZE (fileUrl ''/work/site/pubctl-hook-build.ts'')
     (posixRelative ''/work'' ''/work/site/pubctl-hook-build.ts'')
     (trace (snd (finalizeBuild siteEnv dryContext builtSite))) \<and>
   importedUrls (trace (snd (build siteEnv dryContext builtSite))) =
     importedUrls (trace builtSite) @
     map fileUrl (locatedAt siteEnv (cwd siteEnv) (buildLifecyleHandlerGlob dryContext)) @
     map fileUrl (locatedAt siteEnv (cwd siteEnv) (buildLifecyleHandlerGlob dryContext)) \<and>
   loadReported siteEnv PREPARE (fileUrl ''/work/site/pubctl-hook-build.ts'')
     (posixRelative ''/work'' ''/work/site/pubctl-hook-build.ts'')
     (trace (snd (build siteEnv dryContext builtSite))) \<and>
   loadReported siteEnv FINALIZE (fileUrl ''/work/site/pubctl-hook-build.ts'')
     (posixRelative ''/work'' ''/work/site/pubctl-hook-build.ts'')
     (trace (snd (build siteEnv dryContext builtSite)))"
proof -
  let ?glob = "buildLifecyleHandlerGlob dryContext"
  have ctx: "projectHome dryContext = VString ''/work''"
    "buildLifecyleHandlerGlob dryContext = VString ''**/*/pubctl-hook-build.ts''"
    "isVerbose dryContext" "isDryRun dryContext"
    by (simp_all add: dryContext_def newContext_def orDefault_def dryRunArgv_def exampleSpec_def
        SpecData.truncate_def)
  have dry: "isDryRun dryContext" by (rule ctx(4))
  have loc: "locatedAt siteEnv (cwd siteEnv) ?glob = [''/work/site/pubctl-hook-build.ts'']"
    by (simp add: locatedAt_def siteEnv_def exampleEnv_def docsDir_def siteHook_def)
  have 1: "fst (handleProjectBuildHooks siteEnv dryContext PREPARE builtSite) =
      Inr [''site/pubctl-hook-build.ts'']"
    by (simp add: method_defs ctx siteEnv_def builtSite_def exampleEnv_def
        docsDir_def siteHook_def posixRelative_def del: newContext_def)
  have 2: "siteHook \<in> set (fst (expandGlobSync siteEnv (cwd siteEnv) ?glob))"
    by (simp add: siteEnv_def exampleEnv_def)
  have 3: "isFile siteHook" by (simp add: siteHook_def)
  have 4: "relative siteEnv (projectHome dryContext) (path siteHook) =
      Inr ''site/pubctl-hook-build.ts''"
    by (simp add: ctx siteEnv_def exampleEnv_def siteHook_def posixRelative_def)
  have 5: "toFileUrl siteEnv (path siteHook) = Inr ''file:///work/site/pubctl-hook-build.ts''"
    by (simp add: siteEnv_def exampleEnv_def siteHook_def isAbsolute_def)
  have 6: "runShellCommand siteEnv ''hugox mod clean --all'' (isVerbose dryContext)
      (isDryRun dryContext) = None"
    by (simp add: siteEnv_def exampleEnv_def)
  have 7: "''public'' \<in> set [''go.sum'', ''public'', ''resources'']" by simp
  have 8: "resolvePath (cwd siteEnv) ''public'' \<in> set (files builtSite)"
    by (simp add: siteEnv_def exampleEnv_def resolvePath_def isAbsolute_def builtSite_def start_def)
  have 9: "snd (expandGlobSync siteEnv (cwd siteEnv) ?glob) = None"
    by (simp add: siteEnv_def exampleEnv_def)
  have 10: "list_all (\<lambda>p. relative siteEnv (projectHome dryContext) p =
      Inr (posixRelative ''/work'' p)) (locatedAt siteEnv (cwd siteEnv) ?glob)"
    unfolding loc by (simp add: ctx siteEnv_def exampleEnv_def)
  have 11: "list_all (\<lambda>p. toFileUrl siteEnv p = Inr (fileUrl p))
      (locatedAt siteEnv (cwd siteEnv) ?glob)"
    unfolding loc by (simp add: siteEnv_def exampleEnv_def fileUrl_def isAbsolute_def)
  have 12: "runShellCommand siteEnv ''hugox'' (isVerbose dryContext) (isDryRun dryContext) = None"
    by (simp add: siteEnv_def exampleEnv_def)
  have 13: "''/work/site/pubctl-hook-build.ts'' \<in> set (locatedAt siteEnv (cwd siteEnv) ?glob)"
    unfolding loc by simp
  note T = dry_run_effect_free [OF dry, where w = builtSite and E = siteEnv and step = PREPARE
      and names = "[''site/pubctl-hook-build.ts'']" and we = siteHook
      and name = "''site/pubctl-hook-build.ts''"
      and url = "''file:///work/site/pubctl-hook-build.ts''" and t = "''public''"
      and rel = "posixRelative ''/work''" and urlOf = fileUrl
      and p = "''/work/site/pubctl-hook-build.ts''"]
  from dry T 1 2 3 4 5 6 7 8 9 10 11 12 13 show ?thesis by blast
qed

section \<open>Cleaning\<close>

lemma removeSync_absent:
  "removeSync E t w = Inr w' \<Longrightarrow> resolvePath (cwd E) t \<notin> set (files w')"
  by (auto simp: removeSync_def Let_def emit_def split: if_splits)

lemma removeSync_shrinks:
  "removeSync E t w = Inr w' \<Longrightarrow> set (files w') \<subseteq> set (files w)"
  by (auto simp: removeSync_def Let_def emit_def split: if_splits)

lemma cleanEach_shrinks: "set (files (snd (cleanEach E ctx ts w))) \<subseteq> set (files w)"
proof (induction ts arbitrary: w)
  case Nil
  then show ?case by simp
next
  case (Cons t ts)
  let ?w1 = "emit (ExistsSync (resolvePath (cwd E) t)) w"
  have f1: "files ?w1 = files w" by (simp add: emit_def)
  show ?case
  proof (cases "existsSync E t ?w1 \<and> \<not> isDryRun ctx")
    case False
    have a: "set (files (snd (cleanEach E ctx ts ?w1))) \<subseteq> set (files w)"
      using Cons.IH [of ?w1] f1 by simp
    have b: "set (files (snd (cleanEach E ctx ts
               (emit (ConsoleLog [Str ''delete'', Str (red t)]) ?w1)))) \<subseteq> set (files w)"
      using Cons.IH [of "emit (ConsoleLog [Str ''delete'', Str (red t)]) ?w1"]
      by (simp add: emit_def)
    from False a b show ?thesis by (auto simp: Let_def)
  next
    case True
    then obtain w2 where w2: "removeSync E t ?w1 = Inr w2"
      by (auto simp: existsSync_def removeSync_def Let_def)
    have s2: "set (files w2) \<subseteq> set (files w)"
      using removeSync_shrinks [OF w2] f1 by simp
    let ?w3 = "if isVerbose ctx then emit (ConsoleLog [Str (red (''deleted '' @ t))]) w2 else w2"
    have "files ?w3 = files w2" by (simp add: emit_def)
    with s2 Cons.IH [of ?w3] have "set (files (snd (cleanEach E ctx ts ?w3))) \<subseteq> set (files w)"
      by auto
    with True w2 show ?thesis by (simp add: Let_def)
  qed
qed

lemma cleanEach_removes:
  "\<not> isDryRun ctx \<Longrightarrow> t \<in> set ts \<Longrightarrow>
   resolvePath (cwd E) t \<notin> set (files (snd (cleanEach E ctx ts w)))"
proof (induction ts arbitrary: w)
  case Nil
  then show ?case by simp
next
  case (Cons x rest)
  let ?w1 = "emit (ExistsSync (resolvePath (cwd E) x)) w"
  show ?case
  proof (cases "existsSync E x ?w1")
    case False
    show ?thesis
    proof (cases "t = x")
      case True
      from False have "resolvePath (cwd E) x \<notin> set (files ?w1)" by (simp add: existsSync_def)
      with cleanEach_shrinks [of E ctx rest ?w1] True False show ?thesis
        by (auto simp: Let_def)
    next
      case F: False
      with Cons.prems have "t \<in> set rest" by simp
      with Cons.IH [OF Cons.prems(1)] False show ?thesis by (simp add: Let_def)
    qed
  next
    case True
    then obtain w2 where w2: "removeSync E x ?w1 = Inr w2"
      by (auto simp: existsSync_def removeSync_def Let_def)
    let ?w3 = "if isVerbose ctx then emit (ConsoleLog [Str (red (''deleted '' @ x))]) w2 else w2"
    have step: "cleanEach E ctx (x # rest) w = cleanEach E ctx rest ?w3"
      using True w2 Cons.prems(1) by (simp add: Let_def)
    show ?thesis
    proof (cases "t = x")
      case T: True
      have "resolvePath (cwd E) x \<notin> set (files ?w3)"
        using removeSync_absent [OF w2] by (simp add: emit_def)
      with cleanEach_shrinks [of E ctx rest ?w3] T show ?thesis unfolding step by auto
    next
      case False
      with Cons.prems have "t \<in> set rest" by simp
      with Cons.IH [OF Cons.prems(1)] show ?thesis unfolding step by simp
    qed
  qed
qed

lemma cleanEach_absent:
  "list_all (\<lambda>t. resolvePath (cwd E) t \<notin> set (files w)) ts \<Longrightarrow>
   cleanEach E ctx ts w =
     (Inr (), w\<lparr>trace := trace w @ map (\<lambda>t. ExistsSync (resolvePath (cwd E) t)) ts\<rparr>)"
proof (induction ts arbitrary: w)
  case Nil
  then show ?case by simp
next
  case (Cons t ts)
  let ?w1 = "emit (ExistsSync (resolvePath (cwd E) t)) w"
  have "list_all (\<lambda>t. resolvePath (cwd E) t \<notin> set (files ?w1)) ts"
    using Cons.prems by (simp add: emit_def)
  from Cons.IH [OF this] Cons.prems show ?case
    by (simp add: Let_def existsSync_def emit_def)
qed

lemma cleanEach_skip:
  "resolvePath (cwd E) t \<notin> set (files w) \<Longrightarrow>
   cleanEach E ctx (t # rest) w = cleanEach E ctx rest (emit (ExistsSync (resolvePath (cwd E) t)) w)"
  by (simp add: Let_def existsSync_def emit_def)

lemma cleanEach_flags:
  "isDryRun c = isDryRun c' \<Longrightarrow> isVerbose c = isVerbose c' \<Longrightarrow>
   cleanEach E c ts w = cleanEach E c' ts w"
  by (induction ts arbitrary: w) (auto simp: Let_def split: sum.splits)

lemma clean_flags:
  assumes "isDryRun c = isDryRun c'" and "isVerbose c = isVerbose c'"
  shows "clean E c w = clean E c' w"
proof -
  have 1: "reportShellCmd c = reportShellCmd c'"
    by (intro ext) (simp add: reportShellCmd_def assms)
  have 2: "awaitShell E c = awaitShell E c'"
    by (intro ext) (simp add: awaitShell_def assms)
  have 3: "cleanEach E c = cleanEach E c'"
    by (intro ext) (rule cleanEach_flags [OF assms])
  show ?thesis unfolding clean_def 1 2 3 ..
qed

lemma removeSync_touches:
  "removeSync E t w = Inr w' \<Longrightarrow> resolvePath (cwd E) t \<in> set ps \<Longrightarrow>
   onlyEmits (touchesOnly ps) w w'"
  by (auto simp: removeSync_def Let_def emit_def onlyEmits_iff touchesOnly_def split: if_splits)

lemma cleanEach_touches:
  "onlyEmits (touchesOnly (map (resolvePath (cwd E)) ts)) w (snd (cleanEach E ctx ts w))"
proof (induction ts arbitrary: w)
  case Nil
  then show ?case by (simp add: onlyEmits_refl)
next
  case (Cons t ts)
  let ?P = "touchesOnly (map (resolvePath (cwd E)) (t # ts))"
  let ?w1 = "emit (ExistsSync (resolvePath (cwd E) t)) w"
  have rest: "onlyEmits ?P v (snd (cleanEach E ctx ts v))" for v
    using Cons.IH [of v] by (rule onlyEmits_mono) (auto simp: touchesOnly_def split: event.splits)
  have 1: "onlyEmits ?P w ?w1"
    by (simp add: onlyEmits_iff emit_def touchesOnly_def)
  show ?case
  proof (cases "existsSync E t ?w1")
    case False
    with onlyEmits_trans [OF 1 rest] show ?thesis by (simp add: Let_def)
  next
    case True
    show ?thesis
    proof (cases "isDryRun ctx")
      case dry: True
      let ?w2 = "emit (ConsoleLog [Str ''delete'', Str (red t)]) ?w1"
      have "onlyEmits ?P ?w1 ?w2"
        by (simp add: onlyEmits_iff emit_def touchesOnly_def)
      with 1 have "onlyEmits ?P w ?w2" by (rule onlyEmits_trans)
      from onlyEmits_trans [OF this rest] True dry show ?thesis by (simp add: Let_def)
    next
      case False
      from True obtain w2 where w2: "removeSync E t ?w1 = Inr w2"
        by (auto simp: existsSync_def removeSync_def Let_def)
      let ?w3 = "if isVerbose ctx then emit (ConsoleLog [Str (red (''deleted '' @ t))]) w2 else w2"
      have "onlyEmits ?P ?w1 w2" using w2 by (rule removeSync_touches) simp
      with 1 have 2: "onlyEmits ?P w w2" by (rule onlyEmits_trans)
      have "onlyEmits ?P w2 ?w3"
        by (simp add: onlyEmits_iff emit_def touchesOnly_def)
      with 2 have "onlyEmits ?P w ?w3" by (rule onlyEmits_trans)
      from onlyEmits_trans [OF this rest] True False w2 show ?thesis by (simp add: Let_def)
    qed
  qed
qed

lemma clean_touches:
  "onlyEmits (touchesOnly (map (resolvePath (cwd E)) [''go.sum'', ''public'', ''resources'']))
     w (snd (clean E ctx w))"
proof -
  let ?P = "touchesOnly (map (resolvePath (cwd E)) [''go.sum'', ''public'', ''resources''])"
  let ?c = "''hugox mod clean --all''"
  let ?w1 = "snd (reportShellCmd ctx ?c w)"
  let ?w2 = "snd (awaitShell E ctx ?c ?w1)"
  let ?w3 = "snd (cleanEach E ctx [''go.sum'', ''public'', ''resources''] ?w2)"
  have 1: "onlyEmits ?P w ?w1"
    by (simp add: reportShellCmd_def onlyEmits_iff emit_def touchesOnly_def)
  have "onlyEmits ?P ?w1 ?w2"
    by (simp add: awaitShell_def Let_def onlyEmits_iff emit_def touchesOnly_def
        split: option.splits)
  with 1 have 2: "onlyEmits ?P w ?w2" by (rule onlyEmits_trans)
  have 3: "onlyEmits ?P w ?w3" using 2 cleanEach_touches by (rule onlyEmits_trans)
  have "snd (clean E ctx w) \<in> {?w2, ?w3}"
    by (auto simp: clean_def reportShellCmd_def split: prod.splits sum.splits)
  with 2 3 show ?thesis by auto
qed

text \<open>
  C7. When the shell runner does not throw, \<open>clean\<close> returns without an error, and so
  does a second \<open>clean\<close> right after it. Outside dry-run the three targets are gone
  after the first call, and the second call only runs the shell command and checks the
  three paths: it deletes nothing and reports nothing. In general a target that does not
  exist costs one existence check and the loop goes on.
\<close>

theorem clean_twice:
  assumes "runShellCommand E ''hugox mod clean --all'' (isVerbose ctx) (isDryRun ctx) = None"
  shows "fst (clean E ctx w) = Inr Undefined \<and>
         fst (clean E ctx (snd (clean E ctx w))) = Inr Undefined \<and>
         (\<not> isDryRun ctx \<longrightarrow>
            list_all (\<lambda>t. resolvePath (cwd E) t \<notin> set (files (snd (clean E ctx w))))
              [''go.sum'', ''public'', ''resources''] \<and>
            files (snd (clean E ctx (snd (clean E ctx w)))) = files (snd (clean E ctx w)) \<and>
            trace (snd (clean E ctx (snd (clean E ctx w)))) =
              trace (snd (clean E ctx w)) @
              (if isVerbose ctx then [ConsoleLog [Str (brightCyan ''hugox mod clean --all'')]]
               else []) @
              [RunShellCommand ''hugox mod clean --all'' (isVerbose ctx) False,
               ExistsSync (resolvePath (cwd E) ''go.sum''),
               ExistsSync (resolvePath (cwd E) ''public''),
               ExistsSync (resolvePath (cwd E) ''resources'')]) \<and>
         (resolvePath (cwd E) t \<notin> set (files v) \<longrightarrow>
            cleanEach E ctx (t # rest) v =
              cleanEach E ctx rest (emit (ExistsSync (resolvePath (cwd E) t)) v))"
proof -
  let ?ts = "[''go.sum'', ''public'', ''resources'']"
  let ?c = "''hugox mod clean --all''"
  let ?sh = "\<lambda>u. snd (awaitShell E ctx ?c (snd (reportShellCmd ctx ?c u)))"
  have run: "clean E ctx u = (Inr Undefined, snd (cleanEach E ctx ?ts (?sh u)))" for u
    using assms cleanEach_ok [of E ctx ?ts "?sh u"]
    by (cases "cleanEach E ctx ?ts (?sh u)")
       (simp add: clean_def reportShellCmd_def awaitShell_def Let_def)
  have files_sh: "files (?sh u) = files u" for u
    by (simp add: reportShellCmd_def awaitShell_def Let_def emit_def split: option.splits)
  have trace_sh: "\<not> isDryRun ctx \<Longrightarrow> trace (?sh u) =
      trace u @ (if isVerbose ctx then [ConsoleLog [Str (brightCyan ?c)]] else []) @
      [RunShellCommand ?c (isVerbose ctx) False]" for u
    by (simp add: reportShellCmd_def awaitShell_def Let_def emit_def split: option.splits)
  let ?w1 = "snd (clean E ctx w)"
  have gone: "list_all (\<lambda>t. resolvePath (cwd E) t \<notin> set (files ?w1)) ?ts" if "\<not> isDryRun ctx"
    using cleanEach_removes [OF that, of _ ?ts E "?sh w"] by (simp add: run)
  have second: "cleanEach E ctx ?ts (?sh ?w1) =
      (Inr (), (?sh ?w1)\<lparr>trace := trace (?sh ?w1) @
         map (\<lambda>t. ExistsSync (resolvePath (cwd E) t)) ?ts\<rparr>)" if "\<not> isDryRun ctx"
    using gone [OF that] by (intro cleanEach_absent) (simp add: files_sh)
  show ?thesis
  proof (intro conjI impI)
    show "fst (clean E ctx w) = Inr Undefined" by (simp add: run)
    show "fst (clean E ctx ?w1) = Inr Undefined" by (simp add: run)
    show "list_all (\<lambda>t. resolvePath (cwd E) t \<notin> set (files ?w1)) ?ts" if "\<not> isDryRun ctx"
      using that by (rule gone)
    show "files (snd (clean E ctx ?w1)) = files ?w1" if "\<not> isDryRun ctx"
      using second [OF that] by (simp add: run [of ?w1] files_sh)
    show "trace (snd (clean E ctx ?w1)) = trace ?w1 @
        (if isVerbose ctx then [ConsoleLog [Str (brightCyan ?c)]] else []) @
        [RunShellCommand ?c (isVerbose ctx) False,
         ExistsSync (resolvePath (cwd E) ''go.sum''),
         ExistsSync (resolvePath (cwd E) ''public''),
         ExistsSync (resolvePath (cwd E) ''resources'')]" if "\<not> isDryRun ctx"
      using second [OF that] trace_sh [OF that, of ?w1] by (simp add: run [of ?w1])
    show "cleanEach E ctx (t # rest) v =
        cleanEach E ctx rest (emit (ExistsSync (resolvePath (cwd E) t)) v)"
      if "resolvePath (cwd E) t \<notin> set (files v)"
      using that by (rule cleanEach_skip)
  qed
qed

text \<open>C7, at \<open>pubctl clean\<close> in a built project, where \<open>resources\<close> is absent from the start.\<close>

theorem clean_twice_witness:
  "runShellCommand siteEnv ''hugox mod clean --all''
     (isVerbose (newContext ''/work'' (SpecData.truncate exampleSpec) cleanArgv))
     (isDryRun (newContext ''/work'' (SpecData.truncate exampleSpec) cleanArgv)) = None \<and>
   \<not> isDryRun (newContext ''/work'' (SpecData.truncate exampleSpec) cleanArgv) \<and>
   fst (clean siteEnv (newContext ''/work'' (SpecData.truncate exampleSpec) cleanArgv) builtSite) =
     Inr Undefined \<and>
   fst (clean siteEnv (newContext ''/work'' (SpecData.truncate exampleSpec) cleanArgv)
     (snd (clean siteEnv (newContext ''/work'' (SpecData.truncate exampleSpec) cleanArgv)
        builtSite))) = Inr Undefined \<and>
   files (snd (clean siteEnv (newContext ''/work'' (SpecData.truncate exampleSpec) cleanArgv)
     (snd (clean siteEnv (newContext ''/work'' (SpecData.truncate exampleSpec) cleanArgv)
        builtSite)))) =
   files (snd (clean siteEnv (newContext ''/work'' (SpecData.truncate exampleSpec) cleanArgv)
     builtSite)) \<and>
   files (snd (clean siteEnv (newContext ''/work'' (SpecData.truncate exampleSpec) cleanArgv)
     builtSite)) = [''/work/content''] \<and>
   resolvePath (cwd siteEnv) ''resources'' \<notin> set (files builtSite) \<and>
   cleanEach siteEnv (newContext ''/work'' (SpecData.truncate exampleSpec) cleanArgv)
     [''resources''] builtSite =
   cleanEach siteEnv (newContext ''/work'' (SpecData.truncate exampleSpec) cleanArgv) []
     (emit (ExistsSync (resolvePath (cwd siteEnv) ''resources'')) builtSite)"
proof -
  let ?ctx = "newContext ''/work'' (SpecData.truncate exampleSpec) cleanArgv"
  have shell: "runShellCommand siteEnv ''hugox mod clean --all'' (isVerbose ?ctx) (isDryRun ?ctx) = None"
    by (simp add: siteEnv_def exampleEnv_def)
  have wet: "\<not> isDryRun ?ctx"
    by (simp add: newContext_def cleanArgv_def)
  have absent: "resolvePath (cwd siteEnv) ''resources'' \<notin> set (files builtSite)"
    by (simp add: siteEnv_def exampleEnv_def resolvePath_def isAbsolute_def builtSite_def start_def)
  have left: "files (snd (clean siteEnv ?ctx builtSite)) = [''/work/content'']"
    by (simp add: method_defs siteEnv_def exampleEnv_def builtSite_def cleanArgv_def)
  note T = clean_twice [OF shell, of builtSite "''resources''" builtSite "[]"]
  from shell wet absent left T show ?thesis by blast
qed

text \<open>
  C10. \<open>clean\<close> does not depend on the project root: not on the field of the context,
  not on the override of the spec options, not on \<open>--project\<close>. Every path it checks
  or removes is one of the three names below the current working directory.
\<close>

theorem clean_targets_relative_to_cwd:
  "clean E (ctx\<lparr>projectHome := home\<rparr>) w = clean E ctx w \<and>
   clean E (newContext (cwd E) (chs\<lparr>specProjectHome := override\<rparr>) cli) w =
     clean E (newContext (cwd E) chs cli) w \<and>
   clean E (newContext (cwd E) chs ((''--project'', v) # cli)) w =
     clean E (newContext (cwd E) chs cli) w \<and>
   onlyEmits
     (touchesOnly [cwd E @ ''/go.sum'', cwd E @ ''/public'', cwd E @ ''/resources''])
     w (snd (clean E ctx w))"
proof (intro conjI)
  show "clean E (ctx\<lparr>projectHome := home\<rparr>) w = clean E ctx w"
    by (rule clean_flags) simp_all
  show "clean E (newContext (cwd E) (chs\<lparr>specProjectHome := override\<rparr>) cli) w =
      clean E (newContext (cwd E) chs cli) w"
    by (rule clean_flags) (simp_all add: newContext_def)
  show "clean E (newContext (cwd E) chs ((''--project'', v) # cli)) w =
      clean E (newContext (cwd E) chs cli) w"
    by (rule clean_flags) (simp_all add: newContext_def)
  show "onlyEmits
      (touchesOnly [cwd E @ ''/go.sum'', cwd E @ ''/public'', cwd E @ ''/resources''])
      w (snd (clean E ctx w))"
    using clean_touches [of E w ctx] by (simp add: resolvePath_def isAbsolute_def)
qed

end
